theory Spec2Isabelle
  imports Complex_Main "HOL-Library.Sublist"
begin

chapter \<open>RAGExplorer: the evaluation pipeline of the back end\<close>

text \<open>
  A shallow embedding of the Python back end (\<^verbatim>\<open>src/backEnd\<close>): the tolerant answer
  parser, the evidence analyser, the error classifier, the retrieval stage and the batch
  driver. Python's \<^verbatim>\<open>str\<close> is \<^typ>\<open>string\<close>, \<^verbatim>\<open>int\<close> is \<^typ>\<open>int\<close>, and a
  \<^verbatim>\<open>float\<close> is an exact \<^typ>\<open>rat\<close> (rounding is not modelled). Calls that leave the
  repository (the JSON and literal parsers of the standard library, the vector store, the
  reranker, the language model) are parameters of the model; an exception is a value
  \<open>Inl e\<close> of a sum type.
\<close>

section \<open>Python values, exceptions and the library functions the code calls\<close>

datatype exn =
    JSONDecodeError | ValueError | SyntaxError | TypeError | KeyError
  | IndexError | RecursionError | MemoryError | RerankFailedError | OtherException

text \<open>\<^verbatim>\<open>json.JSONDecodeError\<close> is a subclass of \<^verbatim>\<open>ValueError\<close>; every exception of
  the model is a subclass of \<^verbatim>\<open>Exception\<close>. \<open>caught cs e\<close> is what
  \<^verbatim>\<open>except (cs)\<close> decides for a raised \<open>e\<close>.\<close>

definition caught :: "exn list \<Rightarrow> exn \<Rightarrow> bool" where
  "caught cs e = (e \<in> set cs \<or> (e = JSONDecodeError \<and> ValueError \<in> set cs))"

datatype pyfloat = Finite rat | Infinite bool | NaN

datatype pyval =
    PNone
  | PBool bool
  | PInt int
  | PFloat pyfloat
  | PStr string
  | PBytes string
  | PList "pyval list"
  | PTuple "pyval list"
  | PSet "pyval list"
  | PDict "(pyval \<times> pyval) list"

text \<open>Python's truth value of an object (\<^verbatim>\<open>if x\<close>, \<^verbatim>\<open>not x\<close>).\<close>

fun truthy :: "pyval \<Rightarrow> bool" where
  "truthy PNone = False"
| "truthy (PBool b) = b"
| "truthy (PInt i) = (i \<noteq> 0)"
| "truthy (PFloat f) = (f \<noteq> Finite 0)"
| "truthy (PStr s) = (s \<noteq> [])"
| "truthy (PBytes s) = (s \<noteq> [])"
| "truthy (PList xs) = (xs \<noteq> [])"
| "truthy (PTuple xs) = (xs \<noteq> [])"
| "truthy (PSet xs) = (xs \<noteq> [])"
| "truthy (PDict kvs) = (kvs \<noteq> [])"

fun is_dict :: "pyval \<Rightarrow> bool" where
  "is_dict (PDict kvs) = True"
| "is_dict v = False"

text \<open>\<^verbatim>\<open>key in d\<close> and \<^verbatim>\<open>d.get(key, default)\<close> for a string key; on a value that is
  not a dictionary the model answers as for the empty dictionary (the code only applies
  them after \<^verbatim>\<open>isinstance(d, dict)\<close>).\<close>

fun has_key :: "pyval \<Rightarrow> string \<Rightarrow> bool" where
  "has_key (PDict kvs) k = (PStr k \<in> fst ` set kvs)"
| "has_key v k = False"

fun dict_get :: "pyval \<Rightarrow> string \<Rightarrow> pyval \<Rightarrow> pyval" where
  "dict_get (PDict kvs) k d = (case map_of kvs (PStr k) of Some v \<Rightarrow> v | None \<Rightarrow> d)"
| "dict_get v k d = d"

text \<open>The functions of Python's library that the code calls and this repository does not
  define: \<^verbatim>\<open>json.loads\<close>, \<^verbatim>\<open>ast.literal_eval\<close>, \<^verbatim>\<open>str(x)\<close>, \<^verbatim>\<open>int(s)\<close>
  (\<open>None\<close> where it raises \<^verbatim>\<open>ValueError\<close>) and \<^verbatim>\<open>s.strip()\<close>, which removes the white
  space of Unicode at both ends.\<close>

record pylib =
  json_loads :: "string \<Rightarrow> exn + pyval"
  literal_eval :: "string \<Rightarrow> exn + pyval"
  py_str :: "pyval \<Rightarrow> string"
  py_int :: "string \<Rightarrow> int option"
  py_strip :: "string \<Rightarrow> string"

section \<open>Strings\<close>

text \<open>The characters the scanners compare with, by code: the double quote, the single
  quote, the backslash, and the white space of the lists \<^verbatim>\<open>[' ', '\n', '\t', '\r']\<close> and
  \<^verbatim>\<open>[' ', '\n', '\t']\<close>.\<close>

definition dq :: char where "dq = CHR 0x22"
definition sq :: char where "sq = CHR 0x27"
definition bslash :: char where "bslash = CHR 0x5C"
definition nl :: char where "nl = CHR 0x0A"
definition tab :: char where "tab = CHR 0x09"
definition cr :: char where "cr = CHR 0x0D"

definition ws4 :: "char list" where "ws4 = [CHR '' '', nl, tab, cr]"
definition ws3 :: "char list" where "ws3 = [CHR '' '', nl, tab]"

text \<open>An instance of \<^verbatim>\<open>str.strip()\<close> for texts whose code points are below 256, where the
  white space of Unicode is the codes 9 to 13, 28 to 32, 133 and 160. The model of the code
  calls the library's \<open>py_strip\<close>; this instance serves the example library.\<close>

definition is_space :: "char \<Rightarrow> bool" where
  "is_space c =
     (let n = (of_char c :: nat)
      in (9 \<le> n \<and> n \<le> 13) \<or> (28 \<le> n \<and> n \<le> 32) \<or> n = 133 \<or> n = 160)"

definition strip :: "string \<Rightarrow> string" where
  "strip s = rev (dropWhile is_space (rev (dropWhile is_space s)))"

text \<open>\<^verbatim>\<open>str.lower()\<close> on the letters A to Z; other characters are kept.\<close>

definition lower_char :: "char \<Rightarrow> char" where
  "lower_char c = (let n = (of_char c :: nat) in if 65 \<le> n \<and> n \<le> 90 then char_of (n + 32) else c)"

definition lower :: "string \<Rightarrow> string" where
  "lower s = map lower_char s"

text \<open>\<^verbatim>\<open>sub in s\<close> on strings is \<^const>\<open>sublist\<close>; \<^verbatim>\<open>s.startswith(p)\<close> is
  \<^const>\<open>prefix\<close> and \<^verbatim>\<open>s.endswith(p)\<close> is \<^const>\<open>suffix\<close>. \<^verbatim>\<open>s.replace(old, new)\<close>
  replaces the occurrences of a non-empty \<open>old\<close> from the left, without overlap.\<close>

fun replace :: "string \<Rightarrow> string \<Rightarrow> string \<Rightarrow> string" where
  "replace old new [] = []"
| "replace old new (c # cs) =
     (if old \<noteq> [] \<and> prefix old (c # cs)
      then new @ replace old new (drop (length old) (c # cs))
      else c # replace old new cs)"

section \<open>Tolerant JSON parsing (\<^verbatim>\<open>rag_utils/json_parser.py\<close>)\<close>

subsection \<open>\<^verbatim>\<open>_fix_unescaped_quotes\<close>\<close>

text \<open>\<^verbatim>\<open>while p >= 0 and s[p] in [' ', '\n', '\t', '\r']: p -= 1\<close>\<close>

function skip_ws_back :: "string \<Rightarrow> int \<Rightarrow> int" where
  "skip_ws_back s p = (if 0 \<le> p \<and> s ! nat p \<in> set ws4 then skip_ws_back s (p - 1) else p)"
  by pat_completeness auto
termination
  by (relation "measure (\<lambda>(s, p). nat (p + 1))") auto

text \<open>\<^verbatim>\<open>while n < length and s[n] in ws: n += 1\<close>\<close>

function skip_ws_fwd :: "char list \<Rightarrow> string \<Rightarrow> nat \<Rightarrow> nat" where
  "skip_ws_fwd ws s n = (if n < length s \<and> s ! n \<in> set ws then skip_ws_fwd ws s (n + 1) else n)"
  by pat_completeness auto
termination
  by (relation "measure (\<lambda>(ws, s, n). length s - n)") auto

text \<open>The inner loop, entered after an opening quote: it copies the string value,
  escaping the quotes inside it, and returns the index after the closing quote (or the
  length) with the result so far.\<close>

function fix_inner :: "string \<Rightarrow> nat \<Rightarrow> string \<Rightarrow> nat \<times> string" where
  "fix_inner s i result =
     (if i < length s then
        (if s ! i = dq then
           (if 0 < i \<and> s ! (i - 1) = bslash then fix_inner s (i + 1) (result @ [bslash, dq])
            else (let next_char_idx = skip_ws_fwd ws4 s (i + 1) in
                  if length s \<le> next_char_idx
                     \<or> s ! next_char_idx \<in> set [CHR '','', CHR ''}'', CHR '']'', nl]
                  then (i + 1, result @ [dq])
                  else fix_inner s (i + 1) (result @ [bslash, dq])))
         else if s ! i = bslash then
           (if i + 1 < length s then fix_inner s (i + 2) (result @ [bslash, s ! (i + 1)])
            else fix_inner s (i + 1) (result @ [bslash]))
         else fix_inner s (i + 1) (result @ [s ! i]))
      else (i, result))"
  by pat_completeness auto
termination
  by (relation "measure (\<lambda>(s, i, result). length s - i)") auto

declare skip_ws_back.simps [simp del] skip_ws_fwd.simps [simp del] fix_inner.simps [simp del]

lemma fix_inner_index: "i \<le> fst (fix_inner s i result)"
proof (induction s i result rule: fix_inner.induct)
  case (1 s i result)
  have a: "i \<le> fst (fix_inner s (i + 1) r)" if "i + 1 \<le> fst (fix_inner s (i + 1) r)" for r
    using that by simp
  have b: "i \<le> fst (fix_inner s (i + 2) r)" if "i + 2 \<le> fst (fix_inner s (i + 2) r)" for r
    using that by simp
  show ?case
    apply (subst fix_inner.simps)
    apply (simp only: Let_def split: if_split)
    apply (intro conjI impI)
    using "1.IH"
         apply (simp_all add: Let_def a b)
    done
qed

lemma fix_inner_measure:
  "i < length s \<Longrightarrow> length s - fst (fix_inner s (Suc i) result) < length s - i"
  using fix_inner_index [of "Suc i" s result] by simp

function fix_outer :: "string \<Rightarrow> nat \<Rightarrow> string \<Rightarrow> string" where
  "fix_outer s i result =
     (if i < length s then
        (let char = s ! i in
         if char = dq \<and> 0 < i then
           (let prev_char_idx = skip_ws_back s (int i - 1) in
            if 0 \<le> prev_char_idx
               \<and> s ! nat prev_char_idx \<in> set [CHR '':'', CHR '','', CHR ''['', CHR ''{'']
            then (case fix_inner s (i + 1) (result @ [char]) of
                    (i', result') \<Rightarrow> fix_outer s i' result')
            else fix_outer s (i + 1) (result @ [char]))
         else fix_outer s (i + 1) (result @ [char]))
      else result)"
  by pat_completeness auto
termination
  by (relation "measure (\<lambda>(s, i, result). length s - i)")
     (auto simp: case_prod_beta fix_inner_measure)

declare fix_outer.simps [simp del]

definition fix_unescaped_quotes :: "string \<Rightarrow> string" where
  "fix_unescaped_quotes python_dict_str = fix_outer python_dict_str 0 []"

subsection \<open>\<^verbatim>\<open>_convert_python_dict_to_json\<close>\<close>

text \<open>The nested \<^verbatim>\<open>find_string_end(start_idx, quote_char)\<close>, as the loop over \<open>idx\<close>
  from \<open>start_idx + 1\<close>: the index of the closing quote, or \<open>None\<close>.\<close>

function find_string_end_from :: "string \<Rightarrow> nat \<Rightarrow> char \<Rightarrow> nat \<Rightarrow> nat option" where
  "find_string_end_from s start_idx quote_char idx =
     (if idx < length s then
        (if s ! idx = quote_char then
           (if start_idx + 1 < idx \<and> s ! (idx - 1) = bslash
            then find_string_end_from s start_idx quote_char (idx + 1)
            else (let next_char_idx = skip_ws_fwd ws4 s (idx + 1) in
                  if length s \<le> next_char_idx
                     \<or> s ! next_char_idx \<in> set [CHR '','', CHR ''}'', CHR '']'', nl]
                  then Some idx
                  else find_string_end_from s start_idx quote_char (idx + 1)))
         else find_string_end_from s start_idx quote_char (idx + 1))
      else None)"
  by pat_completeness auto
termination
  by (relation "measure (\<lambda>(s, start_idx, quote_char, idx). length s - idx)") auto

declare find_string_end_from.simps [simp del]

definition find_string_end :: "string \<Rightarrow> nat \<Rightarrow> char \<Rightarrow> nat option" where
  "find_string_end s start_idx quote_char = find_string_end_from s start_idx quote_char (start_idx + 1)"

text \<open>\<^verbatim>\<open>s[a:b]\<close> for \<open>0 \<le> a\<close>, \<open>0 \<le> b\<close>, and \<^verbatim>\<open>content.replace('"', '\\"')\<close>.\<close>

definition slice :: "string \<Rightarrow> nat \<Rightarrow> nat \<Rightarrow> string" where
  "slice s a b = take (b - a) (drop a s)"

definition escape_dq :: "string \<Rightarrow> string" where
  "escape_dq content = replace [dq] [bslash, dq] content"

text \<open>The main loop. Its state is \<open>i\<close>, \<open>in_string\<close>, \<open>string_quote\<close> and the result.
  Outside a string, at a single quote that follows an opening character and for which
  \<^verbatim>\<open>find_string_end\<close> finds no end, no branch of the source changes \<open>i\<close> or appends
  anything: the loop goes round with the same state. The model is a partial function, and
  not returning is the value \<open>None\<close>.\<close>

partial_function (option) convert_loop ::
  "string \<Rightarrow> nat \<Rightarrow> bool \<Rightarrow> char option \<Rightarrow> string \<Rightarrow> string option"
where
  "convert_loop s i in_string string_quote result =
     (if i < length s then
        (let char = s ! i in
         if \<not> in_string then
           (if char = sq \<and> (i = 0 \<or> s ! (i - 1) \<in> set [CHR ''{'', CHR '','', CHR '':'', CHR '' '', nl, tab, CHR ''['']) then
              (case find_string_end s i sq of
                 Some key_end \<Rightarrow>
                   (let next_char_idx = skip_ws_fwd ws3 s (key_end + 1) in
                    if next_char_idx < length s \<and> s ! next_char_idx = CHR '':''
                    then (let key_content = escape_dq (slice s (i + 1) key_end)
                          in convert_loop s (key_end + 1) in_string string_quote
                               (result @ [dq] @ key_content @ [dq]))
                    else (let value_content = escape_dq (slice s (i + 1) key_end)
                          in convert_loop s (key_end + 1) in_string string_quote
                               (result @ [dq] @ value_content @ [dq])))
               | None \<Rightarrow> convert_loop s i in_string string_quote result)
            else if char = dq then convert_loop s (i + 1) True (Some dq) (result @ [char])
            else convert_loop s (i + 1) in_string string_quote (result @ [char]))
         else
           (if char = bslash \<and> i + 1 < length s
            then convert_loop s (i + 2) in_string string_quote (result @ [char, s ! (i + 1)])
            else if Some char = string_quote
            then convert_loop s (i + 1) False None (result @ [char])
            else convert_loop s (i + 1) in_string string_quote (result @ [char])))
      else Some result)"

declare convert_loop.simps [code]

definition convert_python_dict_to_json :: "string \<Rightarrow> string option" where
  "convert_python_dict_to_json python_dict_str = convert_loop python_dict_str 0 False None []"

text \<open>The states in which the loop goes round without progress: outside a string, at a
  single quote that opens a candidate string for which \<^verbatim>\<open>find_string_end\<close> returns
  \<^verbatim>\<open>None\<close>.\<close>

definition stuck_at :: "string \<Rightarrow> nat \<Rightarrow> bool" where
  "stuck_at s i =
     (i < length s \<and> s ! i = sq
      \<and> (i = 0 \<or> s ! (i - 1) \<in> set [CHR ''{'', CHR '','', CHR '':'', CHR '' '', nl, tab, CHR ''[''])
      \<and> find_string_end s i sq = None)"

subsection \<open>\<^verbatim>\<open>parse_json_safely\<close>\<close>

text \<open>Python's \<open>None\<close> is \<^const>\<open>PNone\<close>: the function returns it both when it gives up
  and when \<^verbatim>\<open>json.loads\<close> parses \<^verbatim>\<open>null\<close>. The result is \<open>None\<close> when the call does not
  return, \<open>Some (Inl e)\<close> when it raises \<open>e\<close>.\<close>

definition strip_code_fences :: "pylib \<Rightarrow> string \<Rightarrow> string" where
  "strip_code_fences lib raw_response =
     (let c0 = py_strip lib raw_response;
          c1 = (if prefix ''```json'' c0 then drop 7 c0
                else if prefix ''```'' c0 then drop 3 c0 else c0);
          c2 = (if suffix ''```'' c1 then take (length c1 - 3) c1 else c1)
      in py_strip lib c2)"

text \<open>The last stage: \<^verbatim>\<open>json.loads(_convert_python_dict_to_json(cleaned))\<close> under
  \<^verbatim>\<open>except (json.JSONDecodeError, ValueError, TypeError): return None\<close>.\<close>

definition ladder_convert :: "pylib \<Rightarrow> string \<Rightarrow> (exn + pyval) option" where
  "ladder_convert lib cleaned =
     (case convert_python_dict_to_json cleaned of
        None \<Rightarrow> None
      | Some converted \<Rightarrow>
          (case json_loads lib converted of
             Inr v \<Rightarrow> Some (Inr v)
           | Inl e \<Rightarrow> if caught [JSONDecodeError, ValueError, TypeError] e
                      then Some (Inr PNone) else Some (Inl e)))"

text \<open>The quote-repair stage, under \<^verbatim>\<open>except Exception: pass\<close>: the dictionary it
  returns, or \<open>None\<close> when control goes on to the last stage.\<close>

definition ladder_fix :: "pylib \<Rightarrow> string \<Rightarrow> pyval option" where
  "ladder_fix lib cleaned =
     (let fixed_response = fix_unescaped_quotes cleaned in
      if fixed_response \<noteq> cleaned then
        (case literal_eval lib fixed_response of
           Inr v \<Rightarrow> if is_dict v then Some v else None
         | Inl e \<Rightarrow> None)
      else None)"

text \<open>The handler of \<^verbatim>\<open>except (ValueError, SyntaxError)\<close> around the first
  \<^verbatim>\<open>ast.literal_eval\<close>.\<close>

definition ladder_repair :: "pylib \<Rightarrow> string \<Rightarrow> (exn + pyval) option" where
  "ladder_repair lib cleaned =
     (case ladder_fix lib cleaned of
        Some v \<Rightarrow> Some (Inr v)
      | None \<Rightarrow> ladder_convert lib cleaned)"

text \<open>The handler of \<^verbatim>\<open>except json.JSONDecodeError\<close> around the first \<^verbatim>\<open>json.loads\<close>. A
  literal that is not a dictionary raises \<^verbatim>\<open>ValueError("Not a dictionary format")\<close>,
  which the same handler catches.\<close>

definition ladder_literal :: "pylib \<Rightarrow> string \<Rightarrow> (exn + pyval) option" where
  "ladder_literal lib cleaned =
     (case literal_eval lib cleaned of
        Inr v \<Rightarrow> if is_dict v then Some (Inr v) else ladder_repair lib cleaned
      | Inl e \<Rightarrow> if caught [ValueError, SyntaxError] e then ladder_repair lib cleaned
                 else Some (Inl e))"

definition to_str :: "pylib \<Rightarrow> pyval \<Rightarrow> string" where
  "to_str lib v = (case v of PStr s \<Rightarrow> s | _ \<Rightarrow> py_str lib v)"

definition parse_json_safely :: "pylib \<Rightarrow> pyval \<Rightarrow> (exn + pyval) option" where
  "parse_json_safely lib raw_response =
     (if raw_response = PNone then Some (Inr PNone)
      else (let cleaned_response = strip_code_fences lib (to_str lib raw_response) in
            if cleaned_response = [] then Some (Inr PNone)
            else (case json_loads lib cleaned_response of
                    Inr v \<Rightarrow> Some (Inr v)
                  | Inl e \<Rightarrow> if caught [JSONDecodeError] e
                             then ladder_literal lib cleaned_response
                             else Some (Inl e))))"

section \<open>Answer parsing (\<^verbatim>\<open>rag_utils/response_parser.py\<close>)\<close>

text \<open>The two coercions: a value that is not a list becomes the list of its string (the
  empty list when it is falsy), a value that is not a string becomes its string (the empty
  string when it is falsy).\<close>

definition coerce_supporting_sentences :: "pylib \<Rightarrow> pyval \<Rightarrow> pyval list" where
  "coerce_supporting_sentences lib supporting_sentences =
     (case supporting_sentences of
        PList xs \<Rightarrow> xs
      | _ \<Rightarrow> if truthy supporting_sentences then [PStr (py_str lib supporting_sentences)] else [])"

definition coerce_final_answer :: "pylib \<Rightarrow> pyval \<Rightarrow> string" where
  "coerce_final_answer lib final_answer =
     (case final_answer of
        PStr a \<Rightarrow> a
      | _ \<Rightarrow> if truthy final_answer then py_str lib final_answer else [])"

definition parse_rag_response :: "pylib \<Rightarrow> pyval \<Rightarrow> (exn + string \<times> pyval list) option" where
  "parse_rag_response lib raw_response0 =
     (if raw_response0 = PNone then Some (Inr ([], []))
      else (let raw_response = to_str lib raw_response0 in
        case parse_json_safely lib (PStr raw_response) of
          None \<Rightarrow> None
        | Some (Inl e) \<Rightarrow>
            if caught [JSONDecodeError, KeyError, TypeError, ValueError, SyntaxError] e
            then Some (Inr (raw_response, []))
            else Some (Inl e)
        | Some (Inr response_data) \<Rightarrow>
            if response_data = PNone then Some (Inr (raw_response, []))
            else if is_dict response_data then
              (let supporting_sentences = dict_get response_data ''supporting_sentences'' (PList []);
                   final_answer = dict_get response_data ''final_answer'' (PStr raw_response)
               in Some (Inr (coerce_final_answer lib final_answer,
                             coerce_supporting_sentences lib supporting_sentences)))
            else Some (Inr (raw_response, []))))"

section \<open>Evidence analyser (\<^verbatim>\<open>rag_utils/evidence_analyzer.py\<close>)\<close>

text \<open>An evidence item is a dictionary; the analyser reads \<^verbatim>\<open>evidence.get('fact', '')\<close>
  and \<^verbatim>\<open>evidence.get('title', '')\<close>. \<open>None\<close> is a key that is absent.\<close>

record evidence =
  fact :: "string option"
  title :: "string option"

text \<open>The vector store's \<^verbatim>\<open>get(where_document={"$contains": fact}, where=...)\<close>: it
  raises, or returns a result whose \<^verbatim>\<open>'ids'\<close> are strings (\<open>None\<close>: an empty result or
  one without that key).\<close>

record vectorstore =
  vs_get :: "string \<Rightarrow> string option \<Rightarrow> exn + string list option"

type_synonym score = rat

record hit_counts =
  context_hits :: int
  backup_hits :: int
  total_evidence :: int

record evidence_analysis =
  ea_evidence_list :: "evidence list"
  evidence_to_doc_ids_map :: "(nat \<times> int list) list"
  context_doc_ids :: "int set"
  retrieved_pool_doc_ids :: "int set"
  hit_counts :: hit_counts
  ap :: rat
  mrr_score :: rat

datatype analysis = Status string | Analysis evidence_analysis

text \<open>The body of the loop over the evidence items: the list stored at the item's index.
  Any exception inside the \<^verbatim>\<open>try\<close> stores the empty list.\<close>

definition evidence_doc_ids :: "pylib \<Rightarrow> vectorstore \<Rightarrow> evidence \<Rightarrow> int list" where
  "evidence_doc_ids lib vs ev =
     (let f = (case fact ev of None \<Rightarrow> [] | Some s \<Rightarrow> s);
          t = (case title ev of None \<Rightarrow> [] | Some s \<Rightarrow> s)
      in if f = [] then []
         else (case vs_get vs f (if t \<noteq> [] then Some t else None) of
                 Inl e \<Rightarrow> []
               | Inr None \<Rightarrow> []
               | Inr (Some ids) \<Rightarrow>
                   (case those (map (py_int lib) ids) of
                      None \<Rightarrow> []
                    | Some found_ids \<Rightarrow> found_ids)))"

fun build_evidence_map ::
  "pylib \<Rightarrow> vectorstore \<Rightarrow> (nat \<times> evidence) list \<Rightarrow> (nat \<times> int list) list \<Rightarrow> (nat \<times> int list) list"
where
  "build_evidence_map lib vs [] m = m"
| "build_evidence_map lib vs ((idx, ev) # rest) m =
     build_evidence_map lib vs rest (m @ [(idx, evidence_doc_ids lib vs ev)])"

text \<open>\<^verbatim>\<open>for doc_ids in evidence_to_doc_ids_map.values(): all_true_doc_ids.update(doc_ids)\<close>\<close>

fun collect_true_ids :: "int list list \<Rightarrow> int set \<Rightarrow> int set" where
  "collect_true_ids [] acc = acc"
| "collect_true_ids (doc_ids # rest) acc = collect_true_ids rest (acc \<union> set doc_ids)"

text \<open>The loop that accumulates AP and finds the first hit; the state is
  \<open>(relevant_docs_found_count, ap_sum, first_hit_rank)\<close>.\<close>

fun ap_loop ::
  "int set \<Rightarrow> (nat \<times> (int \<times> score)) list \<Rightarrow> nat \<times> rat \<times> nat \<Rightarrow> nat \<times> rat \<times> nat"
where
  "ap_loop true_ids [] st = st"
| "ap_loop true_ids ((rank, (doc_id, sc)) # rest) (found, ap_sum, first_hit_rank) =
     (if doc_id \<in> true_ids
      then (let found' = found + 1;
                precision_at_k = of_nat found' / of_nat rank
            in ap_loop true_ids rest
                 (found', ap_sum + precision_at_k,
                  if first_hit_rank = 0 then rank else first_hit_rank))
      else ap_loop true_ids rest (found, ap_sum, first_hit_rank))"

definition all_true_doc_ids :: "pylib \<Rightarrow> vectorstore \<Rightarrow> evidence list \<Rightarrow> int set" where
  "all_true_doc_ids lib vs evidence_list =
     collect_true_ids
       (map snd (build_evidence_map lib vs (List.enumerate 0 evidence_list) [])) {}"

definition check_evidence_retrieval ::
  "pylib \<Rightarrow> evidence list \<Rightarrow> (int \<times> score) list \<Rightarrow> (int \<times> score) list
     \<Rightarrow> vectorstore option \<Rightarrow> analysis"
where
  "check_evidence_retrieval lib evidence_list retrieved_docs backup_docs vectorstore =
     (if evidence_list = [] then Status ''No evidence provided.''
      else case vectorstore of
        None \<Rightarrow> Status ''Vectorstore not provided.''
      | Some vs \<Rightarrow>
         (let ctx_ids = set (map fst retrieved_docs);
              backup_ids = set (map fst backup_docs);
              pool_ids = ctx_ids \<union> backup_ids;
              ev_map = build_evidence_map lib vs (List.enumerate 0 evidence_list) [];
              true_ids = collect_true_ids (map snd ev_map) {};
              c_hits = int (card (ctx_ids \<inter> true_ids));
              b_hits = int (card (pool_ids \<inter> true_ids)) - c_hits;
              ranked = List.enumerate 1 (retrieved_docs @ backup_docs);
              total_relevant_docs = card true_ids;
              (found, ap_sum, first_hit_rank) = ap_loop true_ids ranked (0, 0, 0);
              ap_v = (if total_relevant_docs > 0 then ap_sum / of_nat total_relevant_docs else 0);
              mrr = (if first_hit_rank > 0 then 1 / of_nat first_hit_rank else 0)
          in Analysis \<lparr> ea_evidence_list = evidence_list,
                          evidence_to_doc_ids_map = ev_map,
                          context_doc_ids = ctx_ids,
                          retrieved_pool_doc_ids = pool_ids,
                          hit_counts = \<lparr> context_hits = c_hits, backup_hits = b_hits,
                                          total_evidence = int (card true_ids) \<rparr>,
                          ap = ap_v,
                          mrr_score = mrr \<rparr>))"

section \<open>Error classifier (\<^verbatim>\<open>rag_utils/error_analysis.py\<close>)\<close>

text \<open>What the classifier calls outside the repository: the chat completion behind
  \<^verbatim>\<open>call_openai_api(messages, model)\<close> (it raises, or returns the content), the
  substitution into the prompt template of \<^verbatim>\<open>config.py\<close>, and the percent formats
  \<^verbatim>\<open>{x:.1%}\<close> and \<^verbatim>\<open>{x:.0%}\<close> of a ratio (the number of decimals comes first).\<close>

record llm_services =
  call_openai_api :: "string \<Rightarrow> string \<Rightarrow> exn + string"
  substitute_error_prompt :: "string \<Rightarrow> string \<Rightarrow> string \<Rightarrow> string \<Rightarrow> string \<Rightarrow> string"
  format_percent :: "nat \<Rightarrow> rat \<Rightarrow> string"
  evaluate_prompt_with_query :: string

record error_analysis =
  error_type :: string
  description :: string
  details :: "hit_counts option"

text \<open>\<^verbatim>\<open>evidence_retrieval_analysis.get('hit_counts')\<close>: the status dictionaries have no
  such key.\<close>

fun get_hit_counts :: "analysis \<Rightarrow> hit_counts option" where
  "get_hit_counts (Status s) = None"
| "get_hit_counts (Analysis a) = Some (hit_counts a)"

text \<open>The two ratios of step 3, computed under the guard \<^verbatim>\<open>total_evidence > 0\<close>.\<close>

definition retrieval_coverage_ratio :: "hit_counts \<Rightarrow> rat" where
  "retrieval_coverage_ratio hc =
     of_int (context_hits hc + backup_hits hc) / of_int (total_evidence hc)"

definition context_coverage_ratio :: "hit_counts \<Rightarrow> rat" where
  "context_coverage_ratio hc = of_int (context_hits hc) / of_int (total_evidence hc)"

text \<open>Step 4b and step 5: the verdict of the language model, or \<open>unknown\<close>.\<close>

definition generation_errors ::
  "pylib \<Rightarrow> llm_services \<Rightarrow> string \<Rightarrow> string \<Rightarrow> string \<Rightarrow> hit_counts option \<Rightarrow> string \<Rightarrow> string
     \<Rightarrow> error_analysis"
where
  "generation_errors lib llm query response ground_truth hit_counts_opt raw_response evaluate_model =
     (let context_coverage_for_prompt =
            (case hit_counts_opt of
               Some hc \<Rightarrow> if total_evidence hc > 0
                          then format_percent llm 0 (context_coverage_ratio hc) else ''N/A''
             | None \<Rightarrow> ''N/A'');
          generation_error_prompt =
            substitute_error_prompt llm context_coverage_for_prompt query ground_truth
              response raw_response
      in case call_openai_api llm generation_error_prompt evaluate_model of
           Inl e \<Rightarrow> \<lparr> error_type = ''unknown'',
                       description = ''Generation error analysis failed.'', details = None \<rparr>
         | Inr content \<Rightarrow>
             (let llm_verdict =
                    py_strip lib (replace ''(fp7)'' [] (replace ''(fp6)'' []
                      (replace ''(fp4)'' [] (lower (py_strip lib content)))))
              in if llm_verdict = ''incorrect_specificity''
                 then \<lparr> error_type = llm_verdict,
                        description = ''The answer's concept scope is incorrect (too broad or too narrow).'',
                        details = None \<rparr>
                 else if llm_verdict = ''incomplete''
                 then \<lparr> error_type = llm_verdict,
                        description = ''The answer is incomplete and is missing key information.'',
                        details = None \<rparr>
                 else \<lparr> error_type = ''unknown'',
                        description = ''Could not match the issue to a known error type.'',
                        details = None \<rparr>))"

text \<open>Steps 3 and 4a, reached when the raw response parsed into a dictionary with both
  keys.\<close>

definition retrieval_errors ::
  "pylib \<Rightarrow> llm_services \<Rightarrow> string \<Rightarrow> string \<Rightarrow> string \<Rightarrow> hit_counts option \<Rightarrow> string \<Rightarrow> string
     \<Rightarrow> error_analysis"
where
  "retrieval_errors lib llm query response ground_truth hit_counts_opt raw_response evaluate_model =
     (case hit_counts_opt of
        None \<Rightarrow>
          generation_errors lib llm query response ground_truth hit_counts_opt raw_response evaluate_model
      | Some hc \<Rightarrow>
          if total_evidence hc > 0 then
            (if retrieval_coverage_ratio hc < 7 / 10
             then \<lparr> error_type = ''missed_top_ranked_documents'',
                    description = ''Only '' @ format_percent llm 1 (retrieval_coverage_ratio hc)
                      @ '' of relevant evidence was ranked in the initial retrieval pool (threshold: 70%).'',
                    details = Some hc \<rparr>
             else if context_coverage_ratio hc < 7 / 10
             then \<lparr> error_type = ''not_in_context'',
                    description = ''Only '' @ format_percent llm 1 (context_coverage_ratio hc)
                      @ '' of relevant evidence was selected for the final context (threshold: 70%).'',
                    details = Some hc \<rparr>
             else if context_hits hc = total_evidence hc
             then \<lparr> error_type = ''not_extracted'',
                    description = ''All relevant evidence was in the context, but the LLM failed to extract the key information correctly.'',
                    details = Some hc \<rparr>
             else generation_errors lib llm query response ground_truth hit_counts_opt raw_response
                    evaluate_model)
          else generation_errors lib llm query response ground_truth hit_counts_opt raw_response
                 evaluate_model)"

definition analyze_error_type ::
  "pylib \<Rightarrow> llm_services \<Rightarrow> string \<Rightarrow> bool \<Rightarrow> string \<Rightarrow> string \<Rightarrow> analysis \<Rightarrow> string \<Rightarrow> string
     \<Rightarrow> (exn + error_analysis) option"
where
  "analyze_error_type lib llm query is_correct response ground_truth
       evidence_retrieval_analysis raw_response evaluate_model =
     (if is_correct
      then Some (Inr \<lparr> error_type = ''correct'', description = ''The response is correct.'',
                        details = None \<rparr>)
      else
        (let gt_is_insufficient = sublist ''insufficient information'' (lower ground_truth);
             res_is_insufficient = sublist ''insufficient information'' (lower response)
         in if gt_is_insufficient \<and> \<not> res_is_insufficient
            then Some (Inr \<lparr> error_type = ''missing_content'',
                   description = ''Should have answered '' @ [dq] @ ''insufficient information''
                     @ [dq] @ '', but gave a different answer.'',
                   details = None \<rparr>)
            else
              (case parse_json_safely lib (PStr raw_response) of
                 None \<Rightarrow> None
               | Some (Inl e) \<Rightarrow> Some (Inl e)
               | Some (Inr response_data) \<Rightarrow>
                   if response_data = PNone \<or> \<not> is_dict response_data
                   then Some (Inr \<lparr> error_type = ''wrong_format'',
                          description = ''The output format is incorrect (response is not a valid JSON object).'',
                          details = None \<rparr>)
                   else
                     (let has_supporting_sentences = has_key response_data ''supporting_sentences'';
                          has_final_answer = has_key response_data ''final_answer''
                      in if \<not> has_final_answer \<or> \<not> has_supporting_sentences
                         then Some (Inr \<lparr> error_type = ''incomplete'',
                                description = ''The answer is incomplete (missing final_answer or supporting_sentences key).'',
                                details = None \<rparr>)
                         else Some (Inr (retrieval_errors lib llm query response ground_truth
                                (get_hit_counts evidence_retrieval_analysis) raw_response
                                evaluate_model))))))"


section \<open>Retrieval stage (\<^verbatim>\<open>rag.py\<close>, \<^verbatim>\<open>rag_utils/reranker.py\<close>)\<close>

record document =
  chunk_id :: int
  page_content :: string

type_synonym embedding = "rat list"

record rerank_result =
  index :: int
  relevance_score :: "score option"

text \<open>The collaborators of the retrieval stage: the embedding service, the vector index
  (nearest neighbours, stored vectors by id, and the store the evidence analyser searches),
  \<^verbatim>\<open>calculate_cosine_similarity\<close> (numpy's dot product and norms), the rerank API behind
  \<^verbatim>\<open>rerank_function.rerank\<close> (\<open>None\<close> when no reranker is initialised), the language model,
  the substitution of context and question into the prompt template, and \<^verbatim>\<open>str(e)\<close>.\<close>

record rag_services =
  embed_query :: "string \<Rightarrow> exn + embedding"
  similarity_search_by_vector :: "embedding \<Rightarrow> int \<Rightarrow> exn + document list"
  collection_get_embedding :: "int \<Rightarrow> exn + embedding"
  calculate_cosine_similarity :: "embedding \<Rightarrow> embedding \<Rightarrow> score"
  rerank_function :: "(string \<Rightarrow> string list \<Rightarrow> exn + rerank_result list) option"
  llm_invoke :: "string \<Rightarrow> exn + string"
  substitute_rag_prompt :: "string \<Rightarrow> string \<Rightarrow> string"
  str_of_exn :: "exn \<Rightarrow> string"
  rag_vectorstore :: "vectorstore option"

text \<open>\<^verbatim>\<open>RAGConfig\<close>: the fields the retrieval stage reads (\<open>cfg_k\<close> is the field
  \<^verbatim>\<open>k\<close>).\<close>

record rag_config =
  cfg_k :: int
  rerank_range :: int
  rerank_model :: "string option"

text \<open>Python's \<^verbatim>\<open>xs[i]\<close>, \<^verbatim>\<open>xs[:k]\<close> and \<^verbatim>\<open>xs[k:]\<close>: a negative index or bound counts
  from the end.\<close>

definition py_index :: "'a list \<Rightarrow> int \<Rightarrow> exn + 'a" where
  "py_index xs i =
     (if 0 \<le> i \<and> i < int (length xs) then Inr (xs ! nat i)
      else if i < 0 \<and> - int (length xs) \<le> i then Inr (xs ! nat (int (length xs) + i))
      else Inl IndexError)"

definition py_take :: "int \<Rightarrow> 'a list \<Rightarrow> 'a list" where
  "py_take n xs = (if 0 \<le> n then take (nat n) xs else take (nat (int (length xs) + n)) xs)"

definition py_drop :: "int \<Rightarrow> 'a list \<Rightarrow> 'a list" where
  "py_drop n xs = (if 0 \<le> n then drop (nat n) xs else drop (nat (int (length xs) + n)) xs)"

text \<open>A list of calls, stopping at the first that raises.\<close>

fun sequence_results :: "(exn + 'a) list \<Rightarrow> exn + 'a list" where
  "sequence_results [] = Inr []"
| "sequence_results (Inl e # rs) = Inl e"
| "sequence_results (Inr x # rs) =
     (case sequence_results rs of Inl e \<Rightarrow> Inl e | Inr xs \<Rightarrow> Inr (x # xs))"

text \<open>\<^verbatim>\<open>rerank_documents\<close>: the loop over the rerank results; an index out of range raises
  inside the \<^verbatim>\<open>try\<close>.\<close>

fun rerank_loop ::
  "document list \<Rightarrow> rerank_result list \<Rightarrow> document list \<times> score list
     \<Rightarrow> exn + document list \<times> score list"
where
  "rerank_loop docs [] acc = Inr acc"
| "rerank_loop docs (r # rs) (reranked_docs, reranked_scores) =
     (case py_index docs (index r) of
        Inl e \<Rightarrow> Inl e
      | Inr d \<Rightarrow>
          rerank_loop docs rs
            (reranked_docs @ [d],
             reranked_scores @ [case relevance_score r of None \<Rightarrow> 0 | Some x \<Rightarrow> x]))"

definition rerank_documents ::
  "string \<Rightarrow> document list \<Rightarrow> score list
     \<Rightarrow> (string \<Rightarrow> string list \<Rightarrow> exn + rerank_result list) option \<Rightarrow> bool
     \<Rightarrow> exn + document list \<times> score list"
where
  "rerank_documents query docs scores rerank_fn raise_on_error =
     (case rerank_fn of
        None \<Rightarrow> Inr (docs, scores)
      | Some rerank \<Rightarrow>
          if docs = [] then Inr (docs, scores)
          else (case (case rerank query (map page_content docs) of
                        Inl e \<Rightarrow> Inl e
                      | Inr rerank_results \<Rightarrow> rerank_loop docs rerank_results ([], [])) of
                  Inr res \<Rightarrow> Inr res
                | Inl e \<Rightarrow> if raise_on_error then Inl RerankFailedError
                           else Inr (docs, scores)))"

text \<open>\<^verbatim>\<open>format_docs\<close>: the page contents joined by two newlines.\<close>

fun join :: "string \<Rightarrow> string list \<Rightarrow> string" where
  "join sep [] = []"
| "join sep [x] = x"
| "join sep (x # y # ys) = x @ sep @ join sep (y # ys)"

definition format_docs :: "document list \<Rightarrow> string" where
  "format_docs docs = join [nl, nl] (map page_content docs)"

text \<open>Lines 98 to 127 of \<^verbatim>\<open>rag_workflow\<close>: the candidate pool after the optional rerank,
  with its scores.\<close>

datatype pool = NoDocuments | RerankFailed | Pool "document list" "score list"

definition candidate_pool ::
  "rag_services \<Rightarrow> rag_config \<Rightarrow> string \<Rightarrow> embedding \<Rightarrow> exn + pool"
where
  "candidate_pool svc cfg query embedding_vector =
     (case similarity_search_by_vector svc embedding_vector (rerank_range cfg) of
        Inl e \<Rightarrow> Inl e
      | Inr docs \<Rightarrow>
          if docs = [] then Inr NoDocuments
          else
            (let doc_ids = map chunk_id docs in
             case sequence_results (map (collection_get_embedding svc) doc_ids) of
               Inl e \<Rightarrow> Inl e
             | Inr doc_vectors \<Rightarrow>
                 (let all_scores = map (calculate_cosine_similarity svc embedding_vector) doc_vectors
                  in if (case rerank_model cfg of None \<Rightarrow> False | Some m \<Rightarrow> m \<noteq> [])
                        \<and> rerank_function svc \<noteq> None
                     then (case rerank_documents query docs all_scores (rerank_function svc) True of
                             Inl e \<Rightarrow> if e = RerankFailedError then Inr RerankFailed else Inl e
                           | Inr (docs', all_scores') \<Rightarrow> Inr (Pool docs' all_scores'))
                     else Inr (Pool docs all_scores))))"

type_synonym retrieved = "int \<times> score \<times> string list \<times> string"

text \<open>Lines 129 to 138: the partition into the context and the backup.\<close>

definition partition_pool ::
  "int \<Rightarrow> document list \<Rightarrow> score list \<Rightarrow> retrieved list \<times> retrieved list \<times> document list"
where
  "partition_pool kk docs all_scores =
     (let doc_ids = map chunk_id docs;
          top_k_doc_ids = py_take kk doc_ids;
          top_k_scores = py_take kk all_scores;
          top_k_docs = py_take kk docs;
          backup_docs_list = (if int (length docs) > kk then py_drop kk docs else []);
          backup_doc_ids = (if int (length doc_ids) > kk then py_drop kk doc_ids else []);
          backup_scores = (if int (length all_scores) > kk then py_drop kk all_scores else []);
          retrieved_docs =
            map (\<lambda>(doc_id, sc, doc). (doc_id, sc, [], page_content doc))
              (zip top_k_doc_ids (zip top_k_scores top_k_docs));
          backup_docs =
            map (\<lambda>(doc_id, sc, doc). (doc_id, sc, [], page_content doc))
              (zip backup_doc_ids (zip backup_scores backup_docs_list))
      in (retrieved_docs, backup_docs, top_k_docs))"

definition rag_workflow ::
  "rag_services \<Rightarrow> rag_config \<Rightarrow> string
     \<Rightarrow> exn + embedding \<times> retrieved list \<times> retrieved list \<times> string"
where
  "rag_workflow svc cfg query =
     (case embed_query svc query of
        Inl e \<Rightarrow> Inl e
      | Inr embedding_vector \<Rightarrow>
          (case candidate_pool svc cfg query embedding_vector of
             Inl e \<Rightarrow> Inl e
           | Inr NoDocuments \<Rightarrow>
               Inr (embedding_vector, [], [], ''No documents found for the given query.'')
           | Inr RerankFailed \<Rightarrow> Inr (embedding_vector, [], [], [])
           | Inr (Pool docs all_scores) \<Rightarrow>
               (case partition_pool (cfg_k cfg) docs all_scores of
                  (retrieved_docs, backup_docs, top_k_docs) \<Rightarrow>
                    (let ctx = format_docs top_k_docs;
                         prompt = substitute_rag_prompt svc ctx query;
                         response_text =
                           (case llm_invoke svc prompt of
                              Inr t \<Rightarrow> t
                            | Inl e \<Rightarrow> ''Error generating response: '' @ str_of_exn svc e)
                     in Inr (embedding_vector, retrieved_docs, backup_docs, response_text)))))"


section \<open>Batch driver (\<^verbatim>\<open>workflow.py\<close>, \<^verbatim>\<open>rag_utils/evaluator.py\<close>)\<close>

text \<open>\<^verbatim>\<open>evaluate_response\<close>: one call of the judge; any failure counts as incorrect.\<close>

definition evaluate_response ::
  "pylib \<Rightarrow> llm_services \<Rightarrow> string \<Rightarrow> string \<Rightarrow> string \<Rightarrow> string \<Rightarrow> bool"
where
  "evaluate_response lib llm query response ground_truth evaluate_model =
     (let content =
            replace ''$predicted_answer'' response
              (replace ''$ground_truth'' ground_truth
                 (replace ''$question'' query (evaluate_prompt_with_query llm)))
      in case call_openai_api llm content evaluate_model of
           Inl e \<Rightarrow> False
         | Inr full_response \<Rightarrow>
             lower (py_strip lib full_response) \<in> set [''true'', ''yes'', ''correct'', ''right''])"

record rag_details =
  rd_answer :: string
  rd_supporting_sentences :: "pyval list"
  rd_retrieved_docs :: "retrieved list"
  rd_backup_docs :: "retrieved list"
  rd_raw_response :: string

text \<open>The workflow object: its parameters and the RAG system that \<^verbatim>\<open>_ensure_rag_system\<close>
  creates (\<open>Inl e\<close> when the creation raises).\<close>

record workflow =
  wf_lib :: pylib
  wf_llm :: llm_services
  wf_config :: rag_config
  wf_evaluate_model :: string
  wf_rag_system :: "exn + rag_services"

definition empty_details :: rag_details where
  "empty_details = \<lparr> rd_answer = [], rd_supporting_sentences = [], rd_retrieved_docs = [],
                      rd_backup_docs = [], rd_raw_response = [] \<rparr>"

text \<open>\<^verbatim>\<open>query_rag_with_details\<close>: every exception ends in the empty details; \<open>None\<close> when
  the parser does not return.\<close>

definition query_rag_with_details :: "workflow \<Rightarrow> string \<Rightarrow> rag_details option" where
  "query_rag_with_details w query =
     (case wf_rag_system w of
        Inl e \<Rightarrow> Some empty_details
      | Inr svc \<Rightarrow>
          (case rag_workflow svc (wf_config w) query of
             Inl e \<Rightarrow> Some empty_details
           | Inr (embedding_vector, retrieved_docs, backup_docs, response) \<Rightarrow>
               if response = []
               then Some \<lparr> rd_answer = [], rd_supporting_sentences = [],
                           rd_retrieved_docs = retrieved_docs, rd_backup_docs = backup_docs,
                           rd_raw_response = [] \<rparr>
               else (case parse_rag_response (wf_lib w) (PStr response) of
                       None \<Rightarrow> None
                     | Some (Inl e) \<Rightarrow> Some empty_details
                     | Some (Inr (parsed_response, supporting_sentences)) \<Rightarrow>
                         Some \<lparr> rd_answer = parsed_response,
                                rd_supporting_sentences = supporting_sentences,
                                rd_retrieved_docs = retrieved_docs,
                                rd_backup_docs = backup_docs,
                                rd_raw_response = response \<rparr>)))"

record qa_item =
  qa_query :: string
  qa_answer :: string
  qa_evidence_list :: "evidence list"

text \<open>The dictionary stored for a question; the field names are the keys with \<open>r_\<close> in
  front.\<close>

record question_result =
  r_query :: string
  r_response :: string
  r_answer :: string
  r_correct :: bool
  r_supporting_sentences :: "pyval list"
  r_retrieved_docs :: "retrieved list"
  r_backup_docs :: "retrieved list"
  r_raw_response :: string
  r_evidence_list :: "evidence list"
  r_evidence_retrieval_analysis :: analysis
  r_error_type :: string
  r_error_description :: string

text \<open>\<^verbatim>\<open>_process_rag_question\<close>; the body of the sequential loop (lines 320 to 358) is the
  same sequence of statements. \<^verbatim>\<open>analyze_error_type\<close> is called with its default model.\<close>

definition process_rag_question :: "workflow \<Rightarrow> qa_item \<Rightarrow> (exn + question_result) option" where
  "process_rag_question w item =
     (let query = qa_query item; answer = qa_answer item; evidence_list = qa_evidence_list item in
      case query_rag_with_details w query of
        None \<Rightarrow> None
      | Some rag_details \<Rightarrow>
          (let is_rag_correct =
                 evaluate_response (wf_lib w) (wf_llm w) query (rd_answer rag_details) answer
                   (wf_evaluate_model w);
               retrieved_docs_simple = map (\<lambda>doc. (fst doc, fst (snd doc))) (rd_retrieved_docs rag_details);
               backup_docs_simple = map (\<lambda>doc. (fst doc, fst (snd doc))) (rd_backup_docs rag_details);
               evidence_retrieval_analysis =
                 check_evidence_retrieval (wf_lib w) evidence_list retrieved_docs_simple
                   backup_docs_simple
                   (case wf_rag_system w of Inl e \<Rightarrow> None | Inr svc \<Rightarrow> rag_vectorstore svc)
           in case analyze_error_type (wf_lib w) (wf_llm w) query is_rag_correct
                     (rd_answer rag_details) answer evidence_retrieval_analysis
                     (rd_raw_response rag_details) ''gpt-4o-mini'' of
                None \<Rightarrow> None
              | Some (Inl e) \<Rightarrow> Some (Inl e)
              | Some (Inr error_analysis) \<Rightarrow>
                  Some (Inr \<lparr> r_query = query,
                               r_response = rd_answer rag_details,
                               r_answer = answer,
                               r_correct = is_rag_correct,
                               r_supporting_sentences = rd_supporting_sentences rag_details,
                               r_retrieved_docs = rd_retrieved_docs rag_details,
                               r_backup_docs = rd_backup_docs rag_details,
                               r_raw_response = rd_raw_response rag_details,
                               r_evidence_list = evidence_list,
                               r_evidence_retrieval_analysis = evidence_retrieval_analysis,
                               r_error_type = error_type error_analysis,
                               r_error_description = description error_analysis \<rparr>)))"

text \<open>The state of a run: the results array, the number of questions processed and the
  number of calls of \<^verbatim>\<open>save_func\<close>.\<close>

record run_state =
  results :: "question_result option list"
  processed_count :: nat
  saves :: nat

definition count_save :: "bool \<Rightarrow> nat \<Rightarrow> nat \<Rightarrow> nat \<Rightarrow> nat" where
  "count_save has_save_func every processed n =
     (if has_save_func \<and> processed mod every = 0 then n + 1 else n)"

text \<open>The loop of \<^verbatim>\<open>_test_rag_sequential\<close> over \<^verbatim>\<open>enumerate(qa_dataset)\<close>: a filled slot is
  skipped; otherwise the result is stored at the index, whatever it holds.\<close>

fun sequential_loop ::
  "workflow \<Rightarrow> bool \<Rightarrow> (nat \<times> qa_item) list \<Rightarrow> run_state \<Rightarrow> (exn + run_state) option"
where
  "sequential_loop w has_save_func [] st = Some (Inr st)"
| "sequential_loop w has_save_func ((i, item) # rest) st =
     (if i < length (results st) \<and> results st ! i \<noteq> None
      then sequential_loop w has_save_func rest st
      else (case process_rag_question w item of
              None \<Rightarrow> None
            | Some (Inl e) \<Rightarrow> Some (Inl e)
            | Some (Inr result) \<Rightarrow>
                if i < length (results st)
                then sequential_loop w has_save_func rest
                       \<lparr> results = (results st)[i := Some result],
                         processed_count = processed_count st + 1,
                         saves = count_save has_save_func 20 (processed_count st + 1) (saves st) \<rparr>
                else Some (Inl IndexError)))"

record test_result =
  accuracy :: rat
  correct :: nat
  total :: nat
  tr_results :: "question_result option list"

definition count_correct :: "question_result option list \<Rightarrow> nat" where
  "count_correct rs = length (filter (\<lambda>r. case r of None \<Rightarrow> False | Some x \<Rightarrow> r_correct x) rs)"

definition summary :: "qa_item list \<Rightarrow> question_result option list \<Rightarrow> test_result" where
  "summary qa_dataset rs =
     \<lparr> accuracy = (if qa_dataset \<noteq> []
                    then of_nat (count_correct rs) / of_nat (length qa_dataset) * 100 else 0),
       correct = count_correct rs,
       total = length qa_dataset,
       tr_results = rs \<rparr>"

definition initial_results ::
  "qa_item list \<Rightarrow> question_result option list option \<Rightarrow> question_result option list"
where
  "initial_results qa_dataset results_placeholder =
     (case results_placeholder of None \<Rightarrow> replicate (length qa_dataset) None | Some rs \<Rightarrow> rs)"

definition test_rag_sequential ::
  "workflow \<Rightarrow> qa_item list \<Rightarrow> question_result option list option \<Rightarrow> bool
     \<Rightarrow> (exn + test_result \<times> nat) option"
where
  "test_rag_sequential w qa_dataset results_placeholder has_save_func =
     (case wf_rag_system w of
        Inl e \<Rightarrow> Some (Inl e)
      | Inr svc \<Rightarrow>
          (case sequential_loop w has_save_func (List.enumerate 0 qa_dataset)
                  \<lparr> results = initial_results qa_dataset results_placeholder,
                    processed_count = 0, saves = 0 \<rparr> of
             None \<Rightarrow> None
           | Some (Inl e) \<Rightarrow> Some (Inl e)
           | Some (Inr st) \<Rightarrow> Some (Inr (summary qa_dataset (results st), saves st))))"

text \<open>\<^verbatim>\<open>_test_rag_concurrent\<close>. The futures are the questions whose slot is missing or
  empty; \<^verbatim>\<open>as_completed\<close> yields them in some order, which is the argument
  \<open>completion_order\<close> of the model. A result is stored only when its raw response and its
  parsed answer are both non-empty; an exception of the worker, or of the store at an index
  past the array, is caught and the slot stays as it is.\<close>

definition pending :: "qa_item list \<Rightarrow> question_result option list \<Rightarrow> nat list" where
  "pending qa_dataset rs =
     filter (\<lambda>i. length rs \<le> i \<or> rs ! i = None) [0..<length qa_dataset]"

text \<open>A completion order names every future once.\<close>

definition valid_completion_order ::
  "qa_item list \<Rightarrow> question_result option list \<Rightarrow> nat list \<Rightarrow> bool"
where
  "valid_completion_order qa_dataset rs completion_order =
     (distinct completion_order \<and> set completion_order = set (pending qa_dataset rs))"

fun concurrent_loop ::
  "workflow \<Rightarrow> bool \<Rightarrow> qa_item list \<Rightarrow> nat list \<Rightarrow> run_state \<Rightarrow> run_state option"
where
  "concurrent_loop w has_save_func qa_dataset [] st = Some st"
| "concurrent_loop w has_save_func qa_dataset (i # rest) st =
     (case process_rag_question w (qa_dataset ! i) of
        None \<Rightarrow> None
      | Some outcome \<Rightarrow>
          (let rs' =
                 (case outcome of
                    Inl e \<Rightarrow> results st
                  | Inr result \<Rightarrow>
                      if r_raw_response result = [] \<or> r_response result = [] then results st
                      else if i < length (results st) then (results st)[i := Some result]
                      else results st)
           in concurrent_loop w has_save_func qa_dataset rest
                \<lparr> results = rs',
                  processed_count = processed_count st + 1,
                  saves = count_save has_save_func 10 (processed_count st + 1) (saves st) \<rparr>))"

definition test_rag_concurrent ::
  "workflow \<Rightarrow> qa_item list \<Rightarrow> nat \<Rightarrow> question_result option list option \<Rightarrow> bool \<Rightarrow> nat list
     \<Rightarrow> (exn + test_result \<times> nat) option"
where
  "test_rag_concurrent w qa_dataset max_workers results_placeholder has_save_func completion_order =
     (case wf_rag_system w of
        Inl e \<Rightarrow> Some (Inl e)
      | Inr svc \<Rightarrow>
          (let rs = initial_results qa_dataset results_placeholder in
           if pending qa_dataset rs = [] then Some (Inr (summary qa_dataset rs, 0))
           else (case concurrent_loop w has_save_func qa_dataset completion_order
                         \<lparr> results = rs, processed_count = 0, saves = 0 \<rparr> of
                   None \<Rightarrow> None
                 | Some st \<Rightarrow> Some (Inr (summary qa_dataset (results st), saves st)))))"

text \<open>The aggregation of \<^verbatim>\<open>batch_evaluate_configuration\<close> (lines 232 to 263).\<close>

record totals =
  total_context_hits :: int
  total_evidence_count :: int
  total_reciprocal_rank :: rat
  total_ap :: rat
  questions_with_analysis :: nat
  retrieval_eligible_questions :: nat

definition add_result :: "question_result option \<Rightarrow> totals \<Rightarrow> totals" where
  "add_result r t =
     (case r of
        None \<Rightarrow> t
      | Some result \<Rightarrow>
          (let t1 = t \<lparr> questions_with_analysis := questions_with_analysis t + 1 \<rparr> in
           case r_evidence_retrieval_analysis result of
             Status msg \<Rightarrow> t1
           | Analysis a \<Rightarrow>
               (let hc = hit_counts a;
                    t2 = (if total_evidence hc > 0
                          then t1 \<lparr> total_context_hits := total_context_hits t1 + context_hits hc,
                                    total_evidence_count := total_evidence_count t1 + total_evidence hc,
                                    retrieval_eligible_questions := retrieval_eligible_questions t1 + 1 \<rparr>
                          else t1)
                in t2 \<lparr> total_reciprocal_rank := total_reciprocal_rank t2 + mrr_score a,
                         total_ap := total_ap t2 + ap a \<rparr>)))"

fun totals_loop :: "question_result option list \<Rightarrow> totals \<Rightarrow> totals" where
  "totals_loop [] t = t"
| "totals_loop (r # rs) t = totals_loop rs (add_result r t)"

definition zero_totals :: totals where
  "zero_totals = \<lparr> total_context_hits = 0, total_evidence_count = 0, total_reciprocal_rank = 0,
                    total_ap = 0, questions_with_analysis = 0, retrieval_eligible_questions = 0 \<rparr>"

record batch_metrics =
  rag_recall :: rat
  rag_mrr :: rat
  rag_map :: rat
  eligible_questions :: nat

definition aggregate_metrics :: "question_result option list \<Rightarrow> batch_metrics" where
  "aggregate_metrics rs =
     (let t = totals_loop rs zero_totals in
      \<lparr> rag_recall = (if total_evidence_count t > 0
                       then of_int (total_context_hits t) / of_int (total_evidence_count t) else 0),
        rag_mrr = (if retrieval_eligible_questions t > 0
                    then total_reciprocal_rank t / of_nat (retrieval_eligible_questions t) else 0),
        rag_map = (if retrieval_eligible_questions t > 0
                    then total_ap t / of_nat (retrieval_eligible_questions t) else 0),
        eligible_questions = retrieval_eligible_questions t \<rparr>)"

definition batch_evaluate_configuration ::
  "workflow \<Rightarrow> qa_item list \<Rightarrow> int \<Rightarrow> question_result option list option \<Rightarrow> bool \<Rightarrow> nat list
     \<Rightarrow> (exn + test_result \<times> batch_metrics) option"
where
  "batch_evaluate_configuration w qa_dataset concurrent_workers rag_results_placeholder
       has_save_callback completion_order =
     (case (if concurrent_workers \<le> 1
            then test_rag_sequential w qa_dataset rag_results_placeholder has_save_callback
            else test_rag_concurrent w qa_dataset (nat concurrent_workers)
                   rag_results_placeholder has_save_callback completion_order) of
        None \<Rightarrow> None
      | Some (Inl e) \<Rightarrow> Some (Inl e)
      | Some (Inr (rag_result, n_saves)) \<Rightarrow>
          Some (Inr (rag_result, aggregate_metrics (tr_results rag_result))))"


chapter \<open>The metrics as the specification words them\<close>

text \<open>Average precision and the reciprocal rank from the specification's text, over the
  concatenated ranked list (context, then backup) with ranks from 1: the relevant ranks are
  those whose document id is a true id; at a relevant rank the precision is the number of
  relevant documents among the first \<open>r\<close> divided by \<open>r\<close>; AP is the sum of these divided by
  the number of true ids (0 if there is none); the reciprocal rank is 1 over the least
  relevant rank (0 if there is none).\<close>

definition relevant_ranks :: "int set \<Rightarrow> (int \<times> score) list \<Rightarrow> nat list" where
  "relevant_ranks true_ids ranked =
     filter (\<lambda>r. fst (ranked ! (r - 1)) \<in> true_ids) [1..<Suc (length ranked)]"

definition relevant_found_so_far :: "int set \<Rightarrow> (int \<times> score) list \<Rightarrow> nat \<Rightarrow> nat" where
  "relevant_found_so_far true_ids ranked r =
     length (filter (\<lambda>d. fst d \<in> true_ids) (take r ranked))"

definition average_precision_spec :: "int set \<Rightarrow> (int \<times> score) list \<Rightarrow> rat" where
  "average_precision_spec true_ids ranked =
     (if card true_ids = 0 then 0
      else (\<Sum>r\<leftarrow>relevant_ranks true_ids ranked.
              of_nat (relevant_found_so_far true_ids ranked r) / of_nat r)
           / of_nat (card true_ids))"

definition reciprocal_rank_spec :: "int set \<Rightarrow> (int \<times> score) list \<Rightarrow> rat" where
  "reciprocal_rank_spec true_ids ranked =
     (if relevant_ranks true_ids ranked = [] then 0
      else 1 / of_nat (Min (set (relevant_ranks true_ids ranked))))"

text \<open>The relevant ranks within a range of ranks, for the invariant of the loop.\<close>

definition ranks_from :: "int set \<Rightarrow> (int \<times> score) list \<Rightarrow> nat \<Rightarrow> nat \<Rightarrow> nat list" where
  "ranks_from T ranked lo hi = filter (\<lambda>r. fst (ranked ! (r - 1)) \<in> T) [lo..<hi]"

text \<open>The aggregation from the specification's text. The analyses of a results array are
  those of its filled slots that carry hit counts. A question has evidence when the evidence
  list of its analysis, which is the list the analyser was given, is not empty. Recall is the
  sum of \<open>context_hits\<close> over the sum of \<open>total_evidence\<close>, both over the questions with
  evidence; MRR and MAP are means over the questions with evidence.\<close>

definition analyses :: "question_result option list \<Rightarrow> evidence_analysis list" where
  "analyses rs =
     concat (map (\<lambda>r. case r of
                         None \<Rightarrow> []
                       | Some q \<Rightarrow> (case r_evidence_retrieval_analysis q of
                                     Analysis a \<Rightarrow> [a] | Status msg \<Rightarrow> [])) rs)"

definition with_evidence :: "question_result option list \<Rightarrow> evidence_analysis list" where
  "with_evidence rs = filter (\<lambda>a. ea_evidence_list a \<noteq> []) (analyses rs)"

definition recall_over_with_evidence :: "question_result option list \<Rightarrow> rat" where
  "recall_over_with_evidence rs =
     (if (\<Sum>a\<leftarrow>with_evidence rs. total_evidence (hit_counts a)) = 0 then 0
      else of_int (\<Sum>a\<leftarrow>with_evidence rs. context_hits (hit_counts a))
           / of_int (\<Sum>a\<leftarrow>with_evidence rs. total_evidence (hit_counts a)))"

definition mean_over_with_evidence ::
  "(evidence_analysis \<Rightarrow> rat) \<Rightarrow> question_result option list \<Rightarrow> rat"
where
  "mean_over_with_evidence f rs =
     (if with_evidence rs = [] then 0
      else (\<Sum>a\<leftarrow>with_evidence rs. f a) / of_nat (length (with_evidence rs)))"

text \<open>A narrower criterion, for the amended statement of the aggregation: the questions
  whose \<open>total_evidence\<close> is positive, that is those for whose evidence at least one document
  id was found in the store. A question with evidence that matches no document has evidence
  and a \<open>total_evidence\<close> of 0. The same ratio and means over these questions.\<close>

definition eligible :: "question_result option list \<Rightarrow> evidence_analysis list" where
  "eligible rs = filter (\<lambda>a. 0 < total_evidence (hit_counts a)) (analyses rs)"

definition recall_spec :: "question_result option list \<Rightarrow> rat" where
  "recall_spec rs =
     (if eligible rs = [] then 0
      else of_int (\<Sum>a\<leftarrow>eligible rs. context_hits (hit_counts a))
           / of_int (\<Sum>a\<leftarrow>eligible rs. total_evidence (hit_counts a)))"

definition mean_over_eligible :: "(evidence_analysis \<Rightarrow> rat) \<Rightarrow> question_result option list \<Rightarrow> rat" where
  "mean_over_eligible f rs =
     (if eligible rs = [] then 0
      else (\<Sum>a\<leftarrow>eligible rs. f a) / of_nat (length (eligible rs)))"

text \<open>An analysis that \<^verbatim>\<open>check_evidence_retrieval\<close> returns for some input.\<close>

definition analyzer_output :: "analysis \<Rightarrow> bool" where
  "analyzer_output x =
     (\<exists>lib evidence_list retrieved_docs backup_docs vso.
        x = check_evidence_retrieval lib evidence_list retrieved_docs backup_docs vso)"


text \<open>An entry of the candidate pool as the retrieval stage returns it:
  \<^verbatim>\<open>(doc_id, score, [], doc.page_content)\<close>.\<close>

definition as_retrieved :: "document \<times> score \<Rightarrow> retrieved" where
  "as_retrieved ds = (chunk_id (fst ds), snd ds, [], page_content (fst ds))"

chapter \<open>Example inputs\<close>

text \<open>Concrete inputs for the closed instances below: three JSON texts with their parsed
  values, a library that parses exactly these texts and rejects every other one (as
  \<^verbatim>\<open>json.loads\<close> and \<^verbatim>\<open>ast.literal_eval\<close> do for the texts the instances use), decimal
  \<^verbatim>\<open>int(s)\<close>, a vector store with three facts, and a judge that always answers
  \<^verbatim>\<open>incomplete (FP7)\<close>. Where an example function is not needed its value is left
  unspecified.\<close>

definition raw_full :: string where
  "raw_full = ''{'' @ [dq] @ ''supporting_sentences'' @ [dq] @ '': ['' @ [dq] @ ''s'' @ [dq]
     @ ''], '' @ [dq] @ ''final_answer'' @ [dq] @ '': '' @ [dq] @ ''Paris'' @ [dq] @ ''}''"

definition val_full :: pyval where
  "val_full = PDict [(PStr ''supporting_sentences'', PList [PStr ''s'']),
                     (PStr ''final_answer'', PStr ''Paris'')]"

definition raw_final_only :: string where
  "raw_final_only = ''{'' @ [dq] @ ''final_answer'' @ [dq] @ '': '' @ [dq] @ ''Paris'' @ [dq] @ ''}''"

definition val_final_only :: pyval where
  "val_final_only = PDict [(PStr ''final_answer'', PStr ''Paris'')]"

definition raw_sentences_only :: string where
  "raw_sentences_only =
     ''{'' @ [dq] @ ''supporting_sentences'' @ [dq] @ '': ['' @ [dq] @ ''s'' @ [dq] @ '']}''"

definition val_sentences_only :: pyval where
  "val_sentences_only = PDict [(PStr ''supporting_sentences'', PList [PStr ''s''])]"

definition is_digit :: "char \<Rightarrow> bool" where
  "is_digit c = (48 \<le> (of_char c :: nat) \<and> (of_char c :: nat) \<le> 57)"

definition decimal :: "string \<Rightarrow> int" where
  "decimal s = foldl (\<lambda>n c. 10 * n + (int (of_char c) - 48)) 0 s"

definition example_lib :: pylib where
  "example_lib =
     \<lparr> json_loads = (\<lambda>s. if s = raw_full then Inr val_full
                         else if s = raw_final_only then Inr val_final_only
                         else if s = raw_sentences_only then Inr val_sentences_only
                         else Inl JSONDecodeError),
       literal_eval = (\<lambda>s. if s = raw_full then Inr val_full
                           else if s = raw_final_only then Inr val_final_only
                           else if s = raw_sentences_only then Inr val_sentences_only
                           else Inl SyntaxError),
       py_str = (\<lambda>v. case v of PStr s \<Rightarrow> s | _ \<Rightarrow> undefined),
       py_int = (\<lambda>s. if s \<noteq> [] \<and> list_all is_digit s then Some (decimal s) else undefined),
       py_strip = strip \<rparr>"

text \<open>A text of 100000 opening brackets, on which \<^verbatim>\<open>json.loads\<close> raises
  \<^verbatim>\<open>RecursionError\<close>, and the example library with that behaviour.\<close>

definition deep_text :: string where
  "deep_text = replicate 100000 (CHR ''['')"

definition deep_lib :: pylib where
  "deep_lib = example_lib \<lparr> json_loads := (\<lambda>s. if s = deep_text then Inl RecursionError
                                            else json_loads example_lib s) \<rparr>"

definition example_store :: vectorstore where
  "example_store =
     \<lparr> vs_get = (\<lambda>f t. if f = ''alpha'' then Inr (Some [''2''])
                        else if f = ''beta'' then Inr (Some [''2'', ''7''])
                        else Inr (Some [])) \<rparr>"

definition example_evidence :: "evidence list" where
  "example_evidence = [\<lparr> fact = Some ''alpha'', title = None \<rparr>,
                       \<lparr> fact = Some ''beta'', title = Some ''T'' \<rparr>,
                       \<lparr> fact = None, title = None \<rparr>]"

definition example_llm :: llm_services where
  "example_llm =
     \<lparr> call_openai_api = (\<lambda>prompt model. Inr ''incomplete (FP7)''),
       substitute_error_prompt = (\<lambda>c q g r raw. c @ q @ g @ r @ raw),
       format_percent = (\<lambda>d x. if x = 7 / 10 then (if d = 0 then ''70%'' else ''70.0%'')
                                else undefined),
       evaluate_prompt_with_query = ''$question $ground_truth $predicted_answer'' \<rparr>"


definition example_hits :: analysis where
  "example_hits =
     Analysis \<lparr> ea_evidence_list = example_evidence, evidence_to_doc_ids_map = [],
                context_doc_ids = {}, retrieved_pool_doc_ids = {},
                hit_counts = \<lparr> context_hits = 7, backup_hits = 0, total_evidence = 10 \<rparr>,
                ap = 0, mrr_score = 0 \<rparr>"

definition example_docs :: "document list" where
  "example_docs = [\<lparr> chunk_id = 11, page_content = ''a'' \<rparr>,
                   \<lparr> chunk_id = 12, page_content = ''b'' \<rparr>,
                   \<lparr> chunk_id = 13, page_content = ''c'' \<rparr>]"

text \<open>Services with three documents; the reranker puts the third document first and gives
  no score for the second. The language model answers \<open>raw_full\<close>.\<close>

definition example_services :: rag_services where
  "example_services =
     \<lparr> embed_query = (\<lambda>q. Inr [1, 0]),
       similarity_search_by_vector = (\<lambda>e n. Inr (take (nat n) example_docs)),
       collection_get_embedding = (\<lambda>i. Inr [1, 0]),
       calculate_cosine_similarity = (\<lambda>u v. 1),
       rerank_function =
         Some (\<lambda>q ds. Inr [\<lparr> index = 2, relevance_score = Some (9 / 10) \<rparr>,
                             \<lparr> index = 0, relevance_score = Some (1 / 2) \<rparr>,
                             \<lparr> index = 1, relevance_score = None \<rparr>]),
       llm_invoke = (\<lambda>prompt. Inr raw_full),
       substitute_rag_prompt = (\<lambda>c q. c @ q),
       str_of_exn = (\<lambda>e. ''error''),
       rag_vectorstore = Some example_store \<rparr>"

definition example_config :: rag_config where
  "example_config = \<lparr> cfg_k = 2, rerank_range = 20,
                       rerank_model = Some ''Qwen/Qwen3-Reranker-0.6B'' \<rparr>"

text \<open>The stored result of a question with a given evidence list, context and backup.\<close>

definition example_result ::
  "evidence list \<Rightarrow> (int \<times> score) list \<Rightarrow> (int \<times> score) list \<Rightarrow> question_result"
where
  "example_result evidence_list retrieved_docs backup_docs =
     \<lparr> r_query = ''q'', r_response = ''Paris'', r_answer = ''Berlin'', r_correct = False,
       r_supporting_sentences = [], r_retrieved_docs = [], r_backup_docs = [],
       r_raw_response = raw_full, r_evidence_list = evidence_list,
       r_evidence_retrieval_analysis =
         check_evidence_retrieval example_lib evidence_list retrieved_docs backup_docs
           (Some example_store),
       r_error_type = ''unknown'',
       r_error_description = [] \<rparr>"

text \<open>A results array: a question with hits 1 of 2, an empty slot, a question without
  evidence, a question whose fact is in no document, and a question with hits 1 of 1.\<close>

definition example_results :: "question_result option list" where
  "example_results =
     [Some (example_result example_evidence [(5, 9 / 10), (2, 1 / 2)] [(7, 1 / 4), (9, 1 / 5)]),
      None,
      Some (example_result [] [(5, 9 / 10)] []),
      Some (example_result [\<lparr> fact = Some ''gamma'', title = None \<rparr>] [(5, 9 / 10)] []),
      Some (example_result [\<lparr> fact = Some ''alpha'', title = None \<rparr>] [(2, 9 / 10)] [])]"

text \<open>A workflow whose reranker raises, and a dataset item.\<close>

definition failing_workflow :: workflow where
  "failing_workflow =
     \<lparr> wf_lib = example_lib, wf_llm = example_llm, wf_config = example_config,
       wf_evaluate_model = ''gpt-4o-mini'',
       wf_rag_system = Inr (example_services \<lparr> rerank_function := Some (\<lambda>q ds. Inl OtherException) \<rparr>) \<rparr>"

definition example_item :: qa_item where
  "example_item = \<lparr> qa_query = ''q'', qa_answer = ''Berlin'', qa_evidence_list = example_evidence \<rparr>"

chapter \<open>Properties\<close>

section \<open>Evidence analyser: hit counts\<close>

lemma collect_true_ids_eq: "collect_true_ids xss acc = acc \<union> (\<Union>xs\<in>set xss. set xs)"
  by (induction xss arbitrary: acc) auto

lemma build_evidence_map_eq:
  "build_evidence_map lib vs es m = m @ map (\<lambda>(idx, ev). (idx, evidence_doc_ids lib vs ev)) es"
  by (induction es arbitrary: m) auto

lemma map_snd_enumerate: "map (snd \<circ> (\<lambda>(idx, ev). (idx, f ev))) (List.enumerate n es) = map f es"
  by (induction es arbitrary: n) auto

lemma all_true_doc_ids_eq:
  "all_true_doc_ids lib vs evidence_list
     = (\<Union>ev\<in>set evidence_list. set (evidence_doc_ids lib vs ev))"
  by (simp add: all_true_doc_ids_def collect_true_ids_eq build_evidence_map_eq map_snd_enumerate)

lemma finite_all_true_doc_ids: "finite (all_true_doc_ids lib vs evidence_list)"
  by (simp add: all_true_doc_ids_eq)

lemma check_evidence_retrieval_Analysis:
  assumes "check_evidence_retrieval lib evidence_list retrieved_docs backup_docs vso = Analysis a"
  obtains vs where "vso = Some vs" "evidence_list \<noteq> []"
    "hit_counts a =
       \<lparr> context_hits = int (card (fst ` set retrieved_docs \<inter> all_true_doc_ids lib vs evidence_list)),
         backup_hits =
           int (card ((fst ` set retrieved_docs \<union> fst ` set backup_docs)
                  \<inter> all_true_doc_ids lib vs evidence_list))
           - int (card (fst ` set retrieved_docs \<inter> all_true_doc_ids lib vs evidence_list)),
         total_evidence = int (card (all_true_doc_ids lib vs evidence_list)) \<rparr>"
  using assms unfolding check_evidence_retrieval_def all_true_doc_ids_def
  by (auto simp: Let_def split: if_splits option.splits prod.splits)

lemma check_evidence_retrieval_returns:
  "evidence_list \<noteq> [] \<Longrightarrow>
     \<exists>a. check_evidence_retrieval lib evidence_list retrieved_docs backup_docs (Some vs) = Analysis a"
  unfolding check_evidence_retrieval_def by (simp add: Let_def split: prod.splits)

lemma example_true_ids: "all_true_doc_ids example_lib example_store example_evidence = {2, 7}"
  by (auto simp: all_true_doc_ids_eq example_evidence_def evidence_doc_ids_def example_store_def
        example_lib_def is_digit_def decimal_def)

text \<open>
  \<^bold>\<open>C5.\<close> In every analysis that \<^verbatim>\<open>check_evidence_retrieval\<close> returns for a non-empty evidence
  list and a vector store, the hit counts count distinct document ids: \<open>context_hits\<close> is
  the number of ids of the context that are true ids, \<open>backup_hits\<close> is the number of ids of
  the whole pool that are true ids minus \<open>context_hits\<close>, and \<open>total_evidence\<close> is the number
  of true ids, where the true ids are the union over the evidence items of the ids found
  for each.
\<close>

theorem hit_counts_distinct_ids:
  assumes "evidence_list \<noteq> []"
  shows "\<exists>a. check_evidence_retrieval lib evidence_list retrieved_docs backup_docs (Some vs) = Analysis a
      \<and> context_hits (hit_counts a) =
            int (card (fst ` set retrieved_docs
                   \<inter> (\<Union>ev\<in>set evidence_list. set (evidence_doc_ids lib vs ev))))
      \<and> backup_hits (hit_counts a) =
            int (card ((fst ` set retrieved_docs \<union> fst ` set backup_docs)
                   \<inter> (\<Union>ev\<in>set evidence_list. set (evidence_doc_ids lib vs ev))))
            - context_hits (hit_counts a)
      \<and> total_evidence (hit_counts a) =
            int (card (\<Union>ev\<in>set evidence_list. set (evidence_doc_ids lib vs ev)))"
proof -
  have T: "collect_true_ids (map snd (build_evidence_map lib vs (List.enumerate 0 evidence_list) [])) {}
      = (\<Union>ev\<in>set evidence_list. set (evidence_doc_ids lib vs ev))"
    using all_true_doc_ids_eq [of lib vs evidence_list] by (simp add: all_true_doc_ids_def)
  show ?thesis
    using assms unfolding check_evidence_retrieval_def
    by (simp add: Let_def T split: prod.splits)
qed

text \<open>The instance: three evidence items whose facts are found in the documents 2 and 7; the
  context holds document 2 twice and document 5, the backup the documents 7 and 9.\<close>

theorem hit_counts_distinct_ids_witness:
  "\<exists>a. check_evidence_retrieval example_lib example_evidence
          [(2, 9 / 10), (5, 1 / 2), (2, 1 / 3)] [(7, 1 / 4), (9, 1 / 5)] (Some example_store)
        = Analysis a
      \<and> context_hits (hit_counts a) = 1 \<and> backup_hits (hit_counts a) = 1
      \<and> total_evidence (hit_counts a) = 2"
proof -
  have ne: "example_evidence \<noteq> []" by (simp add: example_evidence_def)
  have T: "(\<Union>ev\<in>set example_evidence. set (evidence_doc_ids example_lib example_store ev)) = {2, 7}"
    using example_true_ids by (simp add: all_true_doc_ids_eq)
  have c1: "card ({2, 5} \<inter> {2, 7 :: int}) = 1" by simp
  have c2: "card ({2, 5, 7, 9} \<inter> {2, 7 :: int}) = 2" by simp
  from hit_counts_distinct_ids [OF ne, of example_lib "[(2, 9 / 10), (5, 1 / 2), (2, 1 / 3)]"
      "[(7, 1 / 4), (9, 1 / 5)]" example_store]
  show ?thesis unfolding T using c1 c2 by (auto simp: insert_commute)
qed

text \<open>
  \<^bold>\<open>C10.\<close> Every hit-count record that \<^verbatim>\<open>check_evidence_retrieval\<close> produces has
  \<open>0 \<le> context_hits\<close>, \<open>0 \<le> backup_hits\<close> and \<open>context_hits + backup_hits \<le> total_evidence\<close>;
  so whenever \<open>total_evidence > 0\<close> the divisor of the classifier's two ratios is not zero and
  both ratios lie between 0 and 1.
\<close>

theorem hit_counts_bounds:
  assumes "check_evidence_retrieval lib evidence_list retrieved_docs backup_docs vso = Analysis a"
  shows "0 \<le> context_hits (hit_counts a) \<and> 0 \<le> backup_hits (hit_counts a)
     \<and> context_hits (hit_counts a) + backup_hits (hit_counts a) \<le> total_evidence (hit_counts a)
     \<and> (0 < total_evidence (hit_counts a) \<longrightarrow>
           total_evidence (hit_counts a) \<noteq> 0
         \<and> 0 \<le> retrieval_coverage_ratio (hit_counts a)
         \<and> retrieval_coverage_ratio (hit_counts a) \<le> 1
         \<and> 0 \<le> context_coverage_ratio (hit_counts a)
         \<and> context_coverage_ratio (hit_counts a) \<le> 1)"
proof -
  from assms obtain vs where hc:
    "hit_counts a =
       \<lparr> context_hits = int (card (fst ` set retrieved_docs \<inter> all_true_doc_ids lib vs evidence_list)),
         backup_hits =
           int (card ((fst ` set retrieved_docs \<union> fst ` set backup_docs)
                  \<inter> all_true_doc_ids lib vs evidence_list))
           - int (card (fst ` set retrieved_docs \<inter> all_true_doc_ids lib vs evidence_list)),
         total_evidence = int (card (all_true_doc_ids lib vs evidence_list)) \<rparr>"
    by (rule check_evidence_retrieval_Analysis)
  let ?T = "all_true_doc_ids lib vs evidence_list"
  let ?C = "fst ` set retrieved_docs" and ?B = "fst ` set backup_docs"
  have fin: "finite ?T" by (rule finite_all_true_doc_ids)
  have le1: "card (?C \<inter> ?T) \<le> card ((?C \<union> ?B) \<inter> ?T)"
    by (rule card_mono) (use fin in auto)
  have le2: "card ((?C \<union> ?B) \<inter> ?T) \<le> card ?T"
    by (rule card_mono) (use fin in auto)
  have c0: "0 \<le> context_hits (hit_counts a)" by (simp add: hc)
  have b0: "0 \<le> backup_hits (hit_counts a)" using le1 by (simp add: hc)
  have s: "context_hits (hit_counts a) + backup_hits (hit_counts a) \<le> total_evidence (hit_counts a)"
    using le2 by (simp add: hc)
  have r: "0 \<le> retrieval_coverage_ratio (hit_counts a)
         \<and> retrieval_coverage_ratio (hit_counts a) \<le> 1
         \<and> 0 \<le> context_coverage_ratio (hit_counts a)
         \<and> context_coverage_ratio (hit_counts a) \<le> 1"
    if "0 < total_evidence (hit_counts a)"
    using that c0 b0 s unfolding retrieval_coverage_ratio_def context_coverage_ratio_def
    by (simp add: divide_le_eq_1 zero_le_divide_iff del: of_int_add)
  from c0 b0 s r show ?thesis by auto
qed

theorem hit_counts_bounds_witness:
  "\<exists>a. check_evidence_retrieval example_lib example_evidence
          [(2, 9 / 10), (5, 1 / 2), (2, 1 / 3)] [(7, 1 / 4), (9, 1 / 5)] (Some example_store)
        = Analysis a
      \<and> 0 \<le> context_hits (hit_counts a) \<and> 0 \<le> backup_hits (hit_counts a)
      \<and> context_hits (hit_counts a) + backup_hits (hit_counts a) \<le> total_evidence (hit_counts a)
      \<and> 0 < total_evidence (hit_counts a)
      \<and> 0 \<le> retrieval_coverage_ratio (hit_counts a)
      \<and> retrieval_coverage_ratio (hit_counts a) \<le> 1
      \<and> 0 \<le> context_coverage_ratio (hit_counts a)
      \<and> context_coverage_ratio (hit_counts a) \<le> 1"
proof -
  have ne: "example_evidence \<noteq> []" by (simp add: example_evidence_def)
  from check_evidence_retrieval_returns [OF ne] obtain a where
    a: "check_evidence_retrieval example_lib example_evidence
          [(2, 9 / 10), (5, 1 / 2), (2, 1 / 3)] [(7, 1 / 4), (9, 1 / 5)] (Some example_store)
        = Analysis a"
    by blast
  from a have "0 < total_evidence (hit_counts a)"
    by (rule check_evidence_retrieval_Analysis) (simp add: example_true_ids)
  with hit_counts_bounds [OF a] a show ?thesis by blast
qed

section \<open>Evidence analyser: average precision and reciprocal rank\<close>

lemma ap_loop_suffix:
  "ap_loop T (List.enumerate (Suc (length pre)) suf)
      (length (filter (\<lambda>d. fst d \<in> T) pre), a, f)
   = (length (filter (\<lambda>d. fst d \<in> T) (pre @ suf)),
      a + (\<Sum>r\<leftarrow>ranks_from T (pre @ suf) (Suc (length pre)) (Suc (length pre + length suf)).
             of_nat (relevant_found_so_far T (pre @ suf) r) / of_nat r),
      if f = 0
      then (case ranks_from T (pre @ suf) (Suc (length pre)) (Suc (length pre + length suf)) of
              [] \<Rightarrow> 0 | r # rs \<Rightarrow> r)
      else f)"
proof (induction suf arbitrary: pre a f)
  case Nil
  show ?case by (simp add: ranks_from_def)
next
  case (Cons d suf)
  obtain i sc where d: "d = (i, sc)" by (cases d)
  have range: "[Suc (length pre)..<Suc (length pre + length (d # suf))]
      = Suc (length pre) # [Suc (length (pre @ [d]))..<Suc (length (pre @ [d]) + length suf)]"
    by (simp add: upt_conv_Cons del: upt_Suc)
  have app: "pre @ d # suf = (pre @ [d]) @ suf" by simp
  have rf: "ranks_from T (pre @ d # suf) (Suc (length pre)) (Suc (length pre + length (d # suf)))
      = (if i \<in> T then [Suc (length pre)] else [])
        @ ranks_from T ((pre @ [d]) @ suf) (Suc (length (pre @ [d]))) (Suc (length (pre @ [d]) + length suf))"
    unfolding ranks_from_def range app [symmetric] by (simp add: d nth_append)
  have found: "relevant_found_so_far T (pre @ d # suf) (Suc (length pre))
      = length (filter (\<lambda>d. fst d \<in> T) (pre @ [d]))"
    by (simp add: relevant_found_so_far_def)
  show ?case
  proof (cases "i \<in> T")
    case True
    have st: "length (filter (\<lambda>d. fst d \<in> T) (pre @ [d])) = length (filter (\<lambda>d. fst d \<in> T) pre) + 1"
      using True by (simp add: d)
    have found': "relevant_found_so_far T (pre @ (i, sc) # suf) (Suc (length pre))
        = Suc (length (filter (\<lambda>d. fst d \<in> T) pre))"
      using True by (simp add: relevant_found_so_far_def)
    show ?thesis
      using Cons.IH [of "pre @ [d]" "a + of_nat (length (filter (\<lambda>d. fst d \<in> T) pre) + 1) / of_nat (Suc (length pre))"
          "if f = 0 then Suc (length pre) else f"] True
      unfolding rf st app [symmetric]
      by (simp add: d Let_def found' algebra_simps del: of_nat_Suc of_nat_add)
  next
    case False
    have st: "length (filter (\<lambda>d. fst d \<in> T) (pre @ [d])) = length (filter (\<lambda>d. fst d \<in> T) pre)"
      using False by (simp add: d)
    show ?thesis
      using Cons.IH [of "pre @ [d]" a f] False
      unfolding rf st app [symmetric]
      by (simp add: d)
  qed
qed

lemma ap_loop_spec:
  "ap_loop T (List.enumerate 1 ranked) (0, 0, 0)
   = (length (filter (\<lambda>d. fst d \<in> T) ranked),
      (\<Sum>r\<leftarrow>relevant_ranks T ranked. of_nat (relevant_found_so_far T ranked r) / of_nat r),
      (case relevant_ranks T ranked of [] \<Rightarrow> 0 | r # rs \<Rightarrow> r))"
  using ap_loop_suffix [of T "[]" ranked 0 0]
  by (simp add: ranks_from_def relevant_ranks_def)

lemma relevant_ranks_sorted: "sorted (relevant_ranks T ranked)"
  unfolding relevant_ranks_def by (rule sorted_wrt_filter) (rule sorted_upt)

lemma relevant_ranks_pos: "r \<in> set (relevant_ranks T ranked) \<Longrightarrow> 0 < r"
  unfolding relevant_ranks_def by auto

lemma Min_sorted_Cons: "sorted (x # xs) \<Longrightarrow> Min (set (x # xs)) = x"
  by (auto intro!: Min_eqI)


lemma first_rank_spec:
  "(let first_hit_rank = (case relevant_ranks T ranked of [] \<Rightarrow> 0 | r # rs \<Rightarrow> r)
    in if first_hit_rank > 0 then 1 / of_nat first_hit_rank else (0 :: rat))
   = reciprocal_rank_spec T ranked"
proof (cases "relevant_ranks T ranked")
  case Nil
  then show ?thesis by (simp add: reciprocal_rank_spec_def)
next
  case (Cons r rs)
  have "0 < r" using relevant_ranks_pos [of r T ranked] Cons by simp
  moreover have "Min (set (r # rs)) = r"
    using relevant_ranks_sorted [of T ranked] Cons by (simp only: Min_sorted_Cons)
  ultimately show ?thesis by (simp add: reciprocal_rank_spec_def Cons)
qed

text \<open>
  \<^bold>\<open>C6.\<close> For a non-empty evidence list and a vector store, the \<open>ap\<close> of the analysis is the
  sum over the relevant ranks of the concatenated list (context, then backup, ranks from 1)
  of the number of relevant documents found so far divided by the rank, divided by the number
  of true ids (0 if there is none), and \<open>mrr_score\<close> is 1 over the first relevant rank (0 if
  no rank is relevant).
\<close>

theorem average_precision_and_reciprocal_rank:
  assumes "evidence_list \<noteq> []"
  shows "\<exists>a. check_evidence_retrieval lib evidence_list retrieved_docs backup_docs (Some vs) = Analysis a
      \<and> ap a = average_precision_spec
                 (\<Union>ev\<in>set evidence_list. set (evidence_doc_ids lib vs ev))
                 (retrieved_docs @ backup_docs)
      \<and> mrr_score a = reciprocal_rank_spec
                 (\<Union>ev\<in>set evidence_list. set (evidence_doc_ids lib vs ev))
                 (retrieved_docs @ backup_docs)"
proof -
  let ?T = "\<Union>ev\<in>set evidence_list. set (evidence_doc_ids lib vs ev)"
  let ?ranked = "retrieved_docs @ backup_docs"
  let ?A = "all_true_doc_ids lib vs evidence_list"
  have T: "?A = ?T" by (rule all_true_doc_ids_eq)
  define ap_sum :: rat where
    "ap_sum = (\<Sum>r\<leftarrow>relevant_ranks ?A ?ranked. of_nat (relevant_found_so_far ?A ?ranked r) / of_nat r)"
  define first_hit_rank where
    "first_hit_rank = (case relevant_ranks ?A ?ranked of [] \<Rightarrow> 0 | r # rs \<Rightarrow> r)"
  have loop: "ap_loop ?A (List.enumerate 1 ?ranked) (0, 0, 0)
      = (length (filter (\<lambda>d. fst d \<in> ?A) ?ranked), ap_sum, first_hit_rank)"
    unfolding ap_sum_def first_hit_rank_def by (rule ap_loop_spec)
  have "\<exists>a. check_evidence_retrieval lib evidence_list retrieved_docs backup_docs (Some vs) = Analysis a
      \<and> ap a = (if card ?A > 0 then ap_sum / of_nat (card ?A) else 0)
      \<and> mrr_score a = (if first_hit_rank > 0 then 1 / of_nat first_hit_rank else 0)"
    using assms loop unfolding check_evidence_retrieval_def all_true_doc_ids_def
    by (simp add: Let_def)
  moreover have "(if card ?A > 0 then ap_sum / of_nat (card ?A) else 0)
      = average_precision_spec ?T ?ranked"
    unfolding average_precision_spec_def ap_sum_def T by simp
  moreover have "(if first_hit_rank > 0 then 1 / of_nat first_hit_rank else 0)
      = reciprocal_rank_spec ?T ?ranked"
    using first_rank_spec [of ?A ?ranked] unfolding first_hit_rank_def T by (simp add: Let_def)
  ultimately show ?thesis by simp
qed

theorem average_precision_and_reciprocal_rank_witness:
  "\<exists>a. check_evidence_retrieval example_lib example_evidence
          [(5, 9 / 10), (2, 1 / 2)] [(7, 1 / 4), (9, 1 / 5)] (Some example_store)
        = Analysis a
      \<and> ap a = 7 / 12 \<and> mrr_score a = 1 / 2"
proof -
  have ne: "example_evidence \<noteq> []" by (simp add: example_evidence_def)
  have T: "(\<Union>ev\<in>set example_evidence. set (evidence_doc_ids example_lib example_store ev)) = {2, 7}"
    using example_true_ids by (simp add: all_true_doc_ids_eq)
  have a: "average_precision_spec {2, 7} ([(5, 9 / 10), (2, 1 / 2)] @ [(7, 1 / 4), (9, 1 / 5)]) = 7 / 12"
    by code_simp
  have r: "reciprocal_rank_spec {2, 7} ([(5, 9 / 10), (2, 1 / 2)] @ [(7, 1 / 4), (9, 1 / 5)]) = 1 / 2"
    by code_simp
  from average_precision_and_reciprocal_rank [OF ne, of example_lib "[(5, 9 / 10), (2, 1 / 2)]"
      "[(7, 1 / 4), (9, 1 / 5)]" example_store]
  show ?thesis unfolding T a r .
qed


section \<open>Error classifier\<close>

lemma generation_errors_labels:
  "error_type (generation_errors lib llm q r g h raw m)
     \<in> {''unknown'', ''incorrect_specificity'', ''incomplete''}"
  unfolding generation_errors_def by (simp add: Let_def split: sum.split)

text \<open>
  \<^bold>\<open>C1.\<close> When the answer is judged incorrect, the ground truth contains
  \<^verbatim>\<open>insufficient information\<close> in any letter case and the predicted answer does not, then
  \<^verbatim>\<open>analyze_error_type\<close> returns the label \<^verbatim>\<open>missing_content\<close>, whatever the raw
  response, the evidence analysis and the services are.
\<close>

theorem missing_content_priority:
  assumes "sublist ''insufficient information'' (lower ground_truth)"
    and "\<not> sublist ''insufficient information'' (lower response)"
  shows "\<exists>ea. analyze_error_type lib llm query False response ground_truth
                 evidence_retrieval_analysis raw_response evaluate_model = Some (Inr ea)
             \<and> error_type ea = ''missing_content''"
  using assms by (simp add: analyze_error_type_def)

theorem missing_content_priority_witness:
  "\<exists>ea. analyze_error_type example_lib example_llm ''q'' False ''Paris''
           ''Insufficient Information.'' example_hits ''I do not know'' ''m'' = Some (Inr ea)
        \<and> error_type ea = ''missing_content''"
proof -
  have a: "sublist ''insufficient information'' (lower ''Insufficient Information.'')"
    by code_simp
  have b: "\<not> sublist ''insufficient information'' (lower ''Paris'')" by code_simp
  show ?thesis by (rule missing_content_priority [OF a b])
qed

text \<open>
  \<^bold>\<open>C2.\<close> When the answer is judged incorrect and the classifier reaches the retrieval stage
  (the missing-content rule does not fire and the raw response parses into a dictionary
  with both keys) with \<open>total_evidence > 0\<close>: a retrieval coverage of exactly 7/10 does not
  give \<^verbatim>\<open>missed_top_ranked_documents\<close> and a context coverage of exactly 7/10 does not give
  \<^verbatim>\<open>not_in_context\<close>. The first label is returned exactly when the retrieval coverage is
  strictly below 7/10, the second exactly when the retrieval coverage is not and the context
  coverage is strictly below 7/10.
\<close>

theorem threshold_is_strict:
  assumes "\<not> (sublist ''insufficient information'' (lower ground_truth)
              \<and> \<not> sublist ''insufficient information'' (lower response))"
    and "parse_json_safely lib (PStr raw_response) = Some (Inr response_data)"
    and "is_dict response_data"
    and "has_key response_data ''final_answer''"
    and "has_key response_data ''supporting_sentences''"
    and "get_hit_counts evidence_retrieval_analysis = Some hc"
    and "0 < total_evidence hc"
  shows "\<exists>ea. analyze_error_type lib llm query False response ground_truth
                 evidence_retrieval_analysis raw_response evaluate_model = Some (Inr ea)
             \<and> (retrieval_coverage_ratio hc = 7 / 10
                  \<longrightarrow> error_type ea \<noteq> ''missed_top_ranked_documents'')
             \<and> (context_coverage_ratio hc = 7 / 10 \<longrightarrow> error_type ea \<noteq> ''not_in_context'')
             \<and> (error_type ea = ''missed_top_ranked_documents''
                  \<longleftrightarrow> retrieval_coverage_ratio hc < 7 / 10)
             \<and> (error_type ea = ''not_in_context''
                  \<longleftrightarrow> \<not> retrieval_coverage_ratio hc < 7 / 10 \<and> context_coverage_ratio hc < 7 / 10)"
proof -
  have nd: "response_data \<noteq> PNone" using assms(3) by auto
  let ?g = "generation_errors lib llm query response ground_truth (Some hc) raw_response evaluate_model"
  have g: "error_type ?g \<noteq> ''missed_top_ranked_documents'' \<and> error_type ?g \<noteq> ''not_in_context''"
    using generation_errors_labels
      [of lib llm query response ground_truth "Some hc" raw_response evaluate_model]
    by auto
  have eq: "analyze_error_type lib llm query False response ground_truth
                 evidence_retrieval_analysis raw_response evaluate_model
        = Some (Inr (retrieval_errors lib llm query response ground_truth (Some hc) raw_response
                       evaluate_model))"
  proof -
    have c: "(sublist ''insufficient information'' (lower ground_truth)
              \<and> \<not> sublist ''insufficient information'' (lower response)) = False"
      using assms(1) by blast
    show ?thesis
      using assms(2-6) nd by (simp add: analyze_error_type_def Let_def c)
  qed
  show ?thesis
    unfolding eq using g assms(7) by (simp add: retrieval_errors_def)
qed

lemma parse_json_safely_raw_full:
  "parse_json_safely example_lib (PStr raw_full) = Some (Inr val_full)"
  by code_simp

text \<open>The instance: 7 of 10 true ids in the context and none in the backup, so that both
  ratios are exactly 7/10.\<close>

theorem threshold_is_strict_witness:
  "retrieval_coverage_ratio \<lparr> context_hits = 7, backup_hits = 0, total_evidence = 10 \<rparr> = 7 / 10
   \<and> context_coverage_ratio \<lparr> context_hits = 7, backup_hits = 0, total_evidence = 10 \<rparr> = 7 / 10
   \<and> (\<exists>ea. analyze_error_type example_lib example_llm ''q'' False ''Paris'' ''Berlin''
              example_hits raw_full ''m'' = Some (Inr ea)
          \<and> error_type ea \<noteq> ''missed_top_ranked_documents''
          \<and> error_type ea \<noteq> ''not_in_context'')"
proof -
  let ?hc = "\<lparr> context_hits = 7, backup_hits = 0, total_evidence = 10 \<rparr>"
  have a: "\<not> (sublist ''insufficient information'' (lower ''Berlin'')
              \<and> \<not> sublist ''insufficient information'' (lower ''Paris''))"
    by code_simp
  have d: "is_dict val_full" "has_key val_full ''final_answer''"
    "has_key val_full ''supporting_sentences''"
    by (simp_all add: val_full_def)
  have h: "get_hit_counts example_hits = Some ?hc" by (simp add: example_hits_def)
  have t: "0 < total_evidence ?hc" by simp
  have r: "retrieval_coverage_ratio ?hc = 7 / 10" "context_coverage_ratio ?hc = 7 / 10"
    by (simp_all add: retrieval_coverage_ratio_def context_coverage_ratio_def)
  from threshold_is_strict [OF a parse_json_safely_raw_full d h t, of example_llm "''q''" "''m''"] r
  show ?thesis by auto
qed


section \<open>Retrieval stage\<close>

lemma py_take_nonneg: "0 \<le> n \<Longrightarrow> py_take n xs = take (nat n) xs"
  by (simp add: py_take_def)

lemma py_drop_nonneg: "0 \<le> n \<Longrightarrow> py_drop n xs = drop (nat n) xs"
  by (simp add: py_drop_def)

lemma sequence_results_length: "sequence_results rs = Inr xs \<Longrightarrow> length xs = length rs"
proof (induction rs arbitrary: xs)
  case Nil
  then show ?case by simp
next
  case (Cons r rs)
  then show ?case by (cases r) (auto split: sum.splits)
qed

lemma rerank_loop_lengths:
  "rerank_loop docs rs (ds, ss) = Inr (ds', ss') \<Longrightarrow> length ds = length ss \<Longrightarrow> length ds' = length ss'"
proof (induction rs arbitrary: ds ss)
  case Nil
  then show ?case by simp
next
  case (Cons r rs)
  then show ?case by (auto split: sum.splits)
qed

lemma rerank_documents_lengths:
  assumes "rerank_documents query docs scores fn raise_on_error = Inr (ds', ss')"
    and "length docs = length scores"
  shows "length ds' = length ss'"
  using assms rerank_loop_lengths [of docs _ "[]" "[]" ds' ss']
  by (auto simp: rerank_documents_def split: option.splits if_splits sum.splits)

lemma candidate_pool_lengths:
  assumes "candidate_pool svc cfg query emb = Inr (Pool docs all_scores)"
  shows "length all_scores = length docs"
  using assms
  by (auto simp: candidate_pool_def Let_def split: sum.splits if_splits prod.splits option.splits
      dest!: sequence_results_length dest: rerank_documents_lengths)

lemma partition_pool_eq:
  assumes "0 \<le> kk" "length all_scores = length docs"
  shows "partition_pool kk docs all_scores
     = (map as_retrieved (take (nat kk) (zip docs all_scores)),
        map as_retrieved (drop (nat kk) (zip docs all_scores)),
        take (nat kk) docs)"
proof -
  have z: "zip (map chunk_id ds) (zip ss ds) = map (\<lambda>(d, s). (chunk_id d, s, d)) (zip ds ss)"
    if "length ds = length ss" for ds :: "document list" and ss :: "score list"
    using that by (induction ds ss rule: list_induct2) auto
  have m: "map (\<lambda>(doc_id, sc, doc). (doc_id, sc, [], page_content doc)) (map (\<lambda>(d, s). (chunk_id d, s, d)) xs)
      = map as_retrieved xs" for xs :: "(document \<times> score) list"
    by (induction xs) (auto simp: as_retrieved_def)
  have t: "zip (map chunk_id (take n docs)) (zip (take n all_scores) (take n docs))
      = map (\<lambda>(d, s). (chunk_id d, s, d)) (take n (zip docs all_scores))" for n
    using z [of "take n docs" "take n all_scores"] assms(2) by (simp add: take_zip)
  have d: "zip (map chunk_id (drop n docs)) (zip (drop n all_scores) (drop n docs))
      = map (\<lambda>(d, s). (chunk_id d, s, d)) (drop n (zip docs all_scores))" for n
    using z [of "drop n docs" "drop n all_scores"] assms(2) by (simp add: drop_zip)
  show ?thesis
  proof (cases "int (length docs) > kk")
    case True
    then show ?thesis
      using assms
      by (auto simp: partition_pool_def Let_def py_take_nonneg py_drop_nonneg take_map drop_map t d as_retrieved_def split: prod.splits)
  next
    case False
    then have "drop (nat kk) (zip docs all_scores) = []" using assms by simp
    with False show ?thesis
      using assms z [of docs all_scores]
      by (auto simp: partition_pool_def Let_def py_take_nonneg py_drop_nonneg as_retrieved_def
          split: prod.splits)
  qed
qed

text \<open>
  \<^bold>\<open>C8.\<close> When the (possibly reranked) candidate pool of a query holds \<open>n\<close> documents with
  \<open>n \<le> rerank_range\<close>, and \<open>k\<close> is not negative, the retrieval stage returns as context the
  first \<open>min k n\<close> candidates in pool order and as backup the remaining ones; so the context
  has at most \<open>k\<close> entries, context and backup together at most \<open>rerank_range\<close>, and for
  \<open>n < k\<close> the context has just the \<open>n\<close> candidates.
\<close>

theorem context_backup_partition:
  assumes "embed_query svc query = Inr emb"
    and "candidate_pool svc cfg query emb = Inr (Pool docs all_scores)"
    and "0 \<le> cfg_k cfg"
    and "int (length docs) \<le> rerank_range cfg"
  shows "\<exists>retrieved_docs backup_docs response_text.
           rag_workflow svc cfg query = Inr (emb, retrieved_docs, backup_docs, response_text)
         \<and> retrieved_docs = map as_retrieved (take (min (nat (cfg_k cfg)) (length docs)) (zip docs all_scores))
         \<and> backup_docs = map as_retrieved (drop (min (nat (cfg_k cfg)) (length docs)) (zip docs all_scores))
         \<and> length retrieved_docs = min (nat (cfg_k cfg)) (length docs)
         \<and> length backup_docs = length docs - min (nat (cfg_k cfg)) (length docs)
         \<and> int (length retrieved_docs) \<le> cfg_k cfg
         \<and> int (length retrieved_docs + length backup_docs) \<le> rerank_range cfg
         \<and> (int (length docs) < cfg_k cfg \<longrightarrow> length retrieved_docs = length docs \<and> backup_docs = [])"
proof -
  have len: "length all_scores = length docs" using assms(2) by (rule candidate_pool_lengths)
  have tk: "take (min (nat (cfg_k cfg)) (length docs)) (zip docs all_scores)
      = take (nat (cfg_k cfg)) (zip docs all_scores)"
    using len by (simp add: min_def)
  have dr: "drop (min (nat (cfg_k cfg)) (length docs)) (zip docs all_scores)
      = drop (nat (cfg_k cfg)) (zip docs all_scores)"
    using len by (simp add: min_def)
  show ?thesis
    unfolding tk dr
    using assms len
    by (auto simp: rag_workflow_def partition_pool_eq Let_def min_def)
qed


lemma example_pool:
  "candidate_pool example_services example_config ''q'' [1, 0]
     = Inr (Pool [\<lparr> chunk_id = 13, page_content = ''c'' \<rparr>,
                  \<lparr> chunk_id = 11, page_content = ''a'' \<rparr>,
                  \<lparr> chunk_id = 12, page_content = ''b'' \<rparr>] [9 / 10, 1 / 2, 0])"
  by code_simp

theorem context_backup_partition_witness:
  "\<exists>response_text.
     rag_workflow example_services example_config ''q''
       = Inr ([1, 0], [(13, 9 / 10, [], ''c''), (11, 1 / 2, [], ''a'')], [(12, 0, [], ''b'')],
              response_text)"
proof -
  have e: "embed_query example_services ''q'' = Inr [1, 0]" by (simp add: example_services_def)
  have kk: "0 \<le> cfg_k example_config" by (simp add: example_config_def)
  have n: "int (length [\<lparr> chunk_id = 13, page_content = ''c'' \<rparr>,
                  \<lparr> chunk_id = 11, page_content = ''a'' \<rparr>,
                  \<lparr> chunk_id = 12, page_content = ''b'' \<rparr>]) \<le> rerank_range example_config"
    by (simp add: example_config_def)
  from context_backup_partition [OF e example_pool kk n]
  show ?thesis by (auto simp: example_config_def as_retrieved_def)
qed

section \<open>Aggregation\<close>

lemma ap_loop_no_true_ids: "ap_loop {} ranked st = st"
proof (induction ranked arbitrary: st)
  case Nil
  show ?case by simp
next
  case (Cons x ranked)
  obtain rank doc_id sc where x: "x = (rank, (doc_id, sc))" by (cases x) auto
  obtain found ap_sum first_hit_rank where st: "st = (found, ap_sum, first_hit_rank)"
    by (cases st) auto
  show ?case by (simp add: x st Cons.IH)
qed

lemma finite_collect_true_ids: "finite acc \<Longrightarrow> finite (collect_true_ids xss acc)"
  by (induction xss arbitrary: acc) auto

lemma analyzer_zero:
  assumes "check_evidence_retrieval lib evidence_list retrieved_docs backup_docs vso = Analysis a"
    and "\<not> 0 < total_evidence (hit_counts a)"
  shows "ap a = 0 \<and> mrr_score a = 0"
proof -
  from assms(1) obtain vs where vso: "vso = Some vs" and ne: "evidence_list \<noteq> []"
    by (auto simp: check_evidence_retrieval_def split: if_splits option.splits)
  define T where
    "T = collect_true_ids (map snd (build_evidence_map lib vs (List.enumerate 0 evidence_list) [])) {}"
  have fin: "finite T" unfolding T_def by (rule finite_collect_true_ids) simp
  have a: "Analysis a = (case ap_loop T (List.enumerate 1 (retrieved_docs @ backup_docs)) (0, 0, 0) of
     (found, ap_sum, first_hit_rank) \<Rightarrow>
        Analysis \<lparr> ea_evidence_list = evidence_list,
                   evidence_to_doc_ids_map = build_evidence_map lib vs (List.enumerate 0 evidence_list) [],
                   context_doc_ids = set (map fst retrieved_docs),
                   retrieved_pool_doc_ids = set (map fst retrieved_docs) \<union> set (map fst backup_docs),
                   hit_counts = \<lparr> context_hits = int (card (set (map fst retrieved_docs) \<inter> T)),
                                   backup_hits = int (card ((set (map fst retrieved_docs) \<union> set (map fst backup_docs)) \<inter> T))
                                      - int (card (set (map fst retrieved_docs) \<inter> T)),
                                   total_evidence = int (card T) \<rparr>,
                   ap = (if card T > 0 then ap_sum / of_nat (card T) else 0),
                   mrr_score = (if first_hit_rank > 0 then 1 / of_nat first_hit_rank else 0) \<rparr>)"
    using assms(1) ne unfolding vso check_evidence_retrieval_def Let_def T_def by simp
  from a assms(2) have "card T = 0" by (auto split: prod.splits)
  with fin have "T = {}" by simp
  with a show ?thesis by (simp add: ap_loop_no_true_ids)
qed

lemma totals_loop_sums:
  "totals_loop rs t =
     \<lparr> total_context_hits = total_context_hits t + (\<Sum>a\<leftarrow>eligible rs. context_hits (hit_counts a)),
       total_evidence_count = total_evidence_count t + (\<Sum>a\<leftarrow>eligible rs. total_evidence (hit_counts a)),
       total_reciprocal_rank = total_reciprocal_rank t + (\<Sum>a\<leftarrow>analyses rs. mrr_score a),
       total_ap = total_ap t + (\<Sum>a\<leftarrow>analyses rs. ap a),
       questions_with_analysis = questions_with_analysis t + length (filter (\<lambda>r. r \<noteq> None) rs),
       retrieval_eligible_questions = retrieval_eligible_questions t + length (eligible rs) \<rparr>"
proof (induction rs arbitrary: t)
  case Nil
  show ?case by (simp add: eligible_def analyses_def)
next
  case (Cons r rs)
  show ?case
    by (simp add: Cons.IH add_result_def eligible_def analyses_def Let_def
        split: option.splits analysis.splits)
qed

lemma sum_eligible:
  assumes "\<And>a. a \<in> set xs \<Longrightarrow> \<not> 0 < total_evidence (hit_counts a) \<Longrightarrow> f a = (0 :: rat)"
  shows "(\<Sum>a\<leftarrow>xs. f a) = (\<Sum>a\<leftarrow>filter (\<lambda>a. 0 < total_evidence (hit_counts a)) xs. f a)"
  using assms by (induction xs) auto

lemma eligible_total_pos:
  "xs \<noteq> [] \<Longrightarrow> \<forall>a\<in>set xs. 0 < total_evidence (hit_counts a) \<Longrightarrow>
     0 < (\<Sum>a\<leftarrow>xs. total_evidence (hit_counts a))"
proof (induction xs)
  case Nil
  then show ?case by simp
next
  case (Cons a xs)
  show ?case
  proof (cases "xs = []")
    case True
    with Cons.prems show ?thesis by simp
  next
    case False
    with Cons have "0 < (\<Sum>a\<leftarrow>xs. total_evidence (hit_counts a))" by simp
    with Cons.prems show ?thesis by simp
  qed
qed

lemma analyzer_evidence:
  assumes "check_evidence_retrieval lib evidence_list retrieved_docs backup_docs vso = Analysis a"
  shows "ea_evidence_list a \<noteq> []"
  using assms
  by (auto simp: check_evidence_retrieval_def Let_def split: if_splits option.splits prod.splits)

lemma analyzer_no_hits:
  assumes "check_evidence_retrieval lib evidence_list retrieved_docs backup_docs vso = Analysis a"
    and "\<not> 0 < total_evidence (hit_counts a)"
  shows "context_hits (hit_counts a) = 0 \<and> total_evidence (hit_counts a) = 0"
proof -
  from assms(1) obtain vs where hc:
    "hit_counts a =
       \<lparr> context_hits = int (card (fst ` set retrieved_docs \<inter> all_true_doc_ids lib vs evidence_list)),
         backup_hits =
           int (card ((fst ` set retrieved_docs \<union> fst ` set backup_docs)
                  \<inter> all_true_doc_ids lib vs evidence_list))
           - int (card (fst ` set retrieved_docs \<inter> all_true_doc_ids lib vs evidence_list)),
         total_evidence = int (card (all_true_doc_ids lib vs evidence_list)) \<rparr>"
    by (rule check_evidence_retrieval_Analysis)
  from assms(2) have "card (all_true_doc_ids lib vs evidence_list) = 0" by (simp add: hc)
  then have "all_true_doc_ids lib vs evidence_list = {}"
    using finite_all_true_doc_ids [of lib vs evidence_list] by simp
  then show ?thesis by (simp add: hc)
qed

lemma sum_eligible_int:
  assumes "\<And>a. a \<in> set xs \<Longrightarrow> \<not> 0 < total_evidence (hit_counts a) \<Longrightarrow> f a = (0 :: int)"
  shows "(\<Sum>a\<leftarrow>xs. f a) = (\<Sum>a\<leftarrow>filter (\<lambda>a. 0 < total_evidence (hit_counts a)) xs. f a)"
  using assms by (induction xs) auto

lemma analyses_from_analyzer:
  assumes "\<forall>r\<in>set rs. \<forall>q. r = Some q \<longrightarrow> analyzer_output (r_evidence_retrieval_analysis q)"
    and "a \<in> set (analyses rs)"
  shows "\<exists>lib ev ctx bk vso. check_evidence_retrieval lib ev ctx bk vso = Analysis a"
proof -
  from assms(2) obtain q where "Some q \<in> set rs" "r_evidence_retrieval_analysis q = Analysis a"
    by (auto simp: analyses_def split: option.splits analysis.splits)
  with assms(1) have "analyzer_output (Analysis a)" by force
  then show ?thesis unfolding analyzer_output_def by metis
qed

lemma with_evidence_analyses:
  assumes "\<forall>r\<in>set rs. \<forall>q. r = Some q \<longrightarrow> analyzer_output (r_evidence_retrieval_analysis q)"
  shows "with_evidence rs = analyses rs"
proof -
  have "ea_evidence_list a \<noteq> []" if "a \<in> set (analyses rs)" for a
    using analyses_from_analyzer [OF assms that] analyzer_evidence by blast
  then show ?thesis unfolding with_evidence_def by (simp add: filter_True)
qed

lemma recall_with_evidence:
  assumes "\<forall>r\<in>set rs. \<forall>q. r = Some q \<longrightarrow> analyzer_output (r_evidence_retrieval_analysis q)"
  shows "recall_over_with_evidence rs = recall_spec rs"
proof -
  have z: "context_hits (hit_counts a) = 0 \<and> total_evidence (hit_counts a) = 0"
    if "a \<in> set (analyses rs)" "\<not> 0 < total_evidence (hit_counts a)" for a
    using analyses_from_analyzer [OF assms that(1)] analyzer_no_hits that(2) by blast
  have c: "(\<Sum>a\<leftarrow>analyses rs. context_hits (hit_counts a))
      = (\<Sum>a\<leftarrow>eligible rs. context_hits (hit_counts a))"
    unfolding eligible_def by (rule sum_eligible_int) (use z in blast)
  have t: "(\<Sum>a\<leftarrow>analyses rs. total_evidence (hit_counts a))
      = (\<Sum>a\<leftarrow>eligible rs. total_evidence (hit_counts a))"
    unfolding eligible_def by (rule sum_eligible_int) (use z in blast)
  have pos: "0 < (\<Sum>a\<leftarrow>eligible rs. total_evidence (hit_counts a))" if "eligible rs \<noteq> []"
    using that by (rule eligible_total_pos) (simp add: eligible_def)
  show ?thesis
    using pos
    by (auto simp: recall_over_with_evidence_def recall_spec_def with_evidence_analyses [OF assms] c t)
qed

text \<open>
  \<^bold>\<open>C7 (amended).\<close> Over a results array whose analyses come from
  \<^verbatim>\<open>check_evidence_retrieval\<close>, the overall recall is the sum of \<open>context_hits\<close> divided by
  the sum of \<open>total_evidence\<close> over all questions with evidence (one ratio over documents, not
  a mean of ratios), and 0 when that sum of \<open>total_evidence\<close> is 0. MRR and MAP are the means
  of \<open>mrr_score\<close> and \<open>ap\<close> over only the questions whose \<open>total_evidence\<close> is positive, which
  are the questions with evidence for which at least one evidence-bearing document id was
  found, and \<open>retrieval_eligible_questions\<close> is their number. Empty slots, questions without
  evidence and questions whose evidence matches no document enter no denominator.
\<close>

theorem aggregate_over_eligible:
  assumes "\<forall>r\<in>set rs. \<forall>q. r = Some q \<longrightarrow> analyzer_output (r_evidence_retrieval_analysis q)"
  shows "rag_recall (aggregate_metrics rs) = recall_over_with_evidence rs
       \<and> rag_recall (aggregate_metrics rs) = recall_spec rs
       \<and> rag_mrr (aggregate_metrics rs) = mean_over_eligible mrr_score rs
       \<and> rag_map (aggregate_metrics rs) = mean_over_eligible ap rs
       \<and> eligible_questions (aggregate_metrics rs) = length (eligible rs)
       \<and> eligible rs = filter (\<lambda>a. 0 < total_evidence (hit_counts a)) (with_evidence rs)"
proof -
  have z: "ap a = 0 \<and> mrr_score a = 0"
    if "a \<in> set (analyses rs)" "\<not> 0 < total_evidence (hit_counts a)" for a
    using analyses_from_analyzer [OF assms that(1)] analyzer_zero that(2) by metis
  have m: "(\<Sum>a\<leftarrow>analyses rs. mrr_score a) = (\<Sum>a\<leftarrow>eligible rs. mrr_score a)"
    unfolding eligible_def by (rule sum_eligible) (use z in blast)
  have p: "(\<Sum>a\<leftarrow>analyses rs. ap a) = (\<Sum>a\<leftarrow>eligible rs. ap a)"
    unfolding eligible_def by (rule sum_eligible) (use z in blast)
  have pos: "0 < (\<Sum>a\<leftarrow>eligible rs. total_evidence (hit_counts a))" if "eligible rs \<noteq> []"
    using that by (rule eligible_total_pos) (simp add: eligible_def)
  have old: "rag_recall (aggregate_metrics rs) = recall_spec rs
       \<and> rag_mrr (aggregate_metrics rs) = mean_over_eligible mrr_score rs
       \<and> rag_map (aggregate_metrics rs) = mean_over_eligible ap rs
       \<and> eligible_questions (aggregate_metrics rs) = length (eligible rs)"
    using pos
    by (auto simp: aggregate_metrics_def totals_loop_sums zero_totals_def Let_def m p
        recall_spec_def mean_over_eligible_def)
  have e: "eligible rs = filter (\<lambda>a. 0 < total_evidence (hit_counts a)) (with_evidence rs)"
    by (simp only: eligible_def with_evidence_analyses [OF assms])
  from old e show ?thesis
    by (simp only: recall_with_evidence [OF assms] simp_thms)
qed

lemma example_results_metrics:
  "recall_over_with_evidence example_results = 2 / 3"
  "mean_over_eligible mrr_score example_results = 3 / 4"
  "mean_over_eligible ap example_results = 19 / 24"
  "length (eligible example_results) = 2"
  by code_simp+

theorem aggregate_over_eligible_witness:
  "rag_recall (aggregate_metrics example_results) = 2 / 3
   \<and> rag_mrr (aggregate_metrics example_results) = 3 / 4
   \<and> rag_map (aggregate_metrics example_results) = 19 / 24
   \<and> eligible_questions (aggregate_metrics example_results) = 2"
proof -
  have h: "\<forall>r\<in>set example_results. \<forall>q. r = Some q
             \<longrightarrow> analyzer_output (r_evidence_retrieval_analysis q)"
    unfolding example_results_def analyzer_output_def example_result_def
    by (auto intro!: exI)
  from aggregate_over_eligible [OF h] show ?thesis
    by (simp only: example_results_metrics)
qed

text \<open>The claim as stated fails for MRR and MAP. In the example array three questions have
  at least one piece of evidence; for one of them the fact is in no document, so its
  \<open>total_evidence\<close> is 0 and the guard \<^verbatim>\<open>if total_evidence > 0\<close> does not count it. The
  code divides the sums by 2 and gives an MRR of 3/4 and a MAP of 19/24, where the means
  over the three questions with evidence are 1/2 and 19/36.\<close>

theorem mean_over_questions_with_evidence_counterexample:
  "length (filter (\<lambda>r. case r of None \<Rightarrow> False | Some q \<Rightarrow> r_evidence_list q \<noteq> [])
             example_results) = 3
   \<and> length (with_evidence example_results) = 3
   \<and> eligible_questions (aggregate_metrics example_results) = 2
   \<and> rag_mrr (aggregate_metrics example_results) = 3 / 4
   \<and> mean_over_with_evidence mrr_score example_results = 1 / 2
   \<and> rag_mrr (aggregate_metrics example_results)
       \<noteq> mean_over_with_evidence mrr_score example_results
   \<and> rag_map (aggregate_metrics example_results) = 19 / 24
   \<and> mean_over_with_evidence ap example_results = 19 / 36
   \<and> rag_map (aggregate_metrics example_results)
       \<noteq> mean_over_with_evidence ap example_results"
  by code_simp


section \<open>Answer parsing\<close>

lemma has_key_map_of: "\<not> has_key (PDict kvs) key \<Longrightarrow> map_of kvs (PStr key) = None"
  by (simp add: map_of_eq_None_iff)

lemma dict_get_absent: "\<not> has_key v key \<Longrightarrow> dict_get v key d = d"
  by (cases v) (simp_all add: has_key_map_of)

lemma parse_rag_response_outcome:
  assumes "parse_json_safely lib (PStr raw) = Some outcome"
  shows "parse_rag_response lib (PStr raw) =
     (case outcome of
        Inl e \<Rightarrow> if caught [JSONDecodeError, KeyError, TypeError, ValueError, SyntaxError] e
                  then Some (Inr (raw, [])) else Some (Inl e)
      | Inr v \<Rightarrow>
          if v = PNone \<or> \<not> is_dict v then Some (Inr (raw, []))
          else Some (Inr
            (coerce_final_answer lib (dict_get v ''final_answer'' (PStr raw)),
             coerce_supporting_sentences lib (dict_get v ''supporting_sentences'' (PList [])))))"
  using assms
  by (auto simp: parse_rag_response_def to_str_def Let_def split: sum.splits)

lemma caught_parse_errors:
  "caught [JSONDecodeError, KeyError, TypeError, ValueError, SyntaxError] e
     \<longleftrightarrow> e \<in> set [JSONDecodeError, KeyError, TypeError, ValueError, SyntaxError]"
  by (auto simp: caught_def)

text \<open>
  \<^bold>\<open>C4 (amended).\<close> For every raw string on which the tolerance ladder returns: if it yields
  no value (\<^verbatim>\<open>None\<close>), a value that is not a mapping, or a mapping with neither
  \<^verbatim>\<open>final_answer\<close> nor \<^verbatim>\<open>supporting_sentences\<close>, or if it raises \<^verbatim>\<open>JSONDecodeError\<close>,
  \<^verbatim>\<open>KeyError\<close>, \<^verbatim>\<open>TypeError\<close>, \<^verbatim>\<open>ValueError\<close> or \<^verbatim>\<open>SyntaxError\<close>, then
  \<^verbatim>\<open>parse_rag_response\<close> returns the raw text with an empty list. A mapping without
  \<^verbatim>\<open>final_answer\<close> gives the raw text as the answer, with the coerced value of the mapping's
  \<^verbatim>\<open>supporting_sentences\<close> (the empty list when that key is absent too); a mapping without
  \<^verbatim>\<open>supporting_sentences\<close> gives the empty list, with the coerced value of the mapping's
  \<^verbatim>\<open>final_answer\<close> (the raw text when that key is absent too); for every mapping each of the
  two components is the coerced value of its key, or its default when the key is absent.
  \<^verbatim>\<open>parse_rag_response\<close> raises an exception exactly when the ladder raised it and it is
  none of the five.
\<close>

theorem parse_rag_response_fallback:
  assumes "parse_json_safely lib (PStr raw) = Some outcome"
  shows "(outcome = Inr v \<and> (v = PNone \<or> \<not> is_dict v
                \<or> (\<not> has_key v ''final_answer'' \<and> \<not> has_key v ''supporting_sentences''))
            \<longrightarrow> parse_rag_response lib (PStr raw) = Some (Inr (raw, [])))
       \<and> (outcome = Inl e \<and> e \<in> set [JSONDecodeError, KeyError, TypeError, ValueError, SyntaxError]
            \<longrightarrow> parse_rag_response lib (PStr raw) = Some (Inr (raw, [])))
       \<and> (outcome = Inr (PDict kvs) \<and> \<not> has_key (PDict kvs) ''final_answer''
            \<longrightarrow> parse_rag_response lib (PStr raw)
                  = Some (Inr (raw,
                       case map_of kvs (PStr ''supporting_sentences'') of
                         None \<Rightarrow> []
                       | Some x \<Rightarrow> coerce_supporting_sentences lib x)))
       \<and> (outcome = Inr (PDict kvs) \<and> \<not> has_key (PDict kvs) ''supporting_sentences''
            \<longrightarrow> parse_rag_response lib (PStr raw)
                  = Some (Inr (case map_of kvs (PStr ''final_answer'') of
                                 None \<Rightarrow> raw
                               | Some x \<Rightarrow> coerce_final_answer lib x,
                               [])))
       \<and> (outcome = Inr (PDict kvs)
            \<longrightarrow> parse_rag_response lib (PStr raw)
                  = Some (Inr (case map_of kvs (PStr ''final_answer'') of
                                 None \<Rightarrow> raw
                               | Some x \<Rightarrow> coerce_final_answer lib x,
                               case map_of kvs (PStr ''supporting_sentences'') of
                                 None \<Rightarrow> []
                               | Some x \<Rightarrow> coerce_supporting_sentences lib x)))
       \<and> (\<forall>x. parse_rag_response lib (PStr raw) = Some (Inl x)
            \<longleftrightarrow> outcome = Inl x
              \<and> x \<notin> set [JSONDecodeError, KeyError, TypeError, ValueError, SyntaxError])"
  unfolding parse_rag_response_outcome [OF assms]
  by (auto simp: dict_get_absent has_key_map_of caught_parse_errors coerce_final_answer_def
        coerce_supporting_sentences_def
      simp del: set_simps split: sum.splits option.splits)

lemma parse_json_safely_garbage:
  "parse_json_safely example_lib (PStr ''I do not know'') = Some (Inr PNone)"
  by code_simp

lemma parse_json_safely_sentences_only:
  "parse_json_safely example_lib (PStr raw_sentences_only) = Some (Inr val_sentences_only)"
  by code_simp

theorem parse_rag_response_fallback_witness:
  "parse_rag_response example_lib (PStr ''I do not know'') = Some (Inr (''I do not know'', []))
   \<and> parse_rag_response example_lib (PStr raw_sentences_only)
       = Some (Inr (raw_sentences_only, [PStr ''s'']))"
proof -
  have k: "\<not> has_key (PDict [(PStr ''supporting_sentences'', PList [PStr ''s''])]) ''final_answer''"
    by simp
  from parse_rag_response_fallback [OF parse_json_safely_garbage, of PNone]
  have a: "parse_rag_response example_lib (PStr ''I do not know'') = Some (Inr (''I do not know'', []))"
    by simp
  from parse_rag_response_fallback
    [OF parse_json_safely_sentences_only [unfolded val_sentences_only_def], of _ _
      "[(PStr ''supporting_sentences'', PList [PStr ''s''])]"] k
  have b: "parse_rag_response example_lib (PStr raw_sentences_only)
       = Some (Inr (raw_sentences_only, [PStr ''s'']))"
    by (simp add: coerce_supporting_sentences_def)
  from a b show ?thesis by simp
qed

text \<open>The claim as stated fails in two ways. For a mapping with one of the two keys: the
  text \<^verbatim>\<open>{"final_answer": "Paris"}\<close> parses into a mapping without
  \<^verbatim>\<open>supporting_sentences\<close>, and the result is the answer \<^verbatim>\<open>Paris\<close>, not the raw text. For
  ``never raises'': on a text of 100000 opening brackets \<^verbatim>\<open>json.loads\<close> raises
  \<^verbatim>\<open>RecursionError\<close>, which the ladder catches at no stage and \<^verbatim>\<open>parse_rag_response\<close> does
  not catch either.\<close>

lemma strip_replicate: "\<not> is_space c \<Longrightarrow> strip (replicate n c) = replicate n c"
  by (simp add: strip_def dropWhile_eq_self_iff)

lemma prefix_replicate: "prefix (x # xs) (replicate n c) \<Longrightarrow> x = c"
  by (cases n) auto

lemma suffix_replicate: "suffix (xs @ [x]) (replicate n c) \<Longrightarrow> x = c"
proof -
  assume "suffix (xs @ [x]) (replicate n c)"
  then have "set (xs @ [x]) \<subseteq> set (replicate n c)" by (rule set_mono_suffix)
  then show ?thesis by (auto split: if_splits)
qed

lemma strip_code_fences_deep: "strip_code_fences deep_lib deep_text = deep_text"
proof -
  have sp: "\<not> is_space (CHR ''['')" by (simp add: is_space_def)
  have s: "strip deep_text = deep_text" unfolding deep_text_def by (rule strip_replicate [OF sp])
  have p1: "\<not> prefix ''```json'' deep_text"
    unfolding deep_text_def using prefix_replicate [of "CHR 0x60" "''``json''" 100000 "CHR ''[''"] by auto
  have p2: "\<not> prefix ''```'' deep_text"
    unfolding deep_text_def using prefix_replicate [of "CHR 0x60" "''``''" 100000 "CHR ''[''"] by auto
  have p3: "\<not> suffix ''```'' deep_text"
    unfolding deep_text_def using suffix_replicate [of "''``''" "CHR 0x60" 100000 "CHR ''[''"] by auto
  show ?thesis
    by (simp add: strip_code_fences_def deep_lib_def example_lib_def s p1 p2 p3 Let_def)
qed

lemma deep_text_nonempty: "deep_text \<noteq> []"
  by (simp add: deep_text_def)

lemma parse_json_safely_deep: "parse_json_safely deep_lib (PStr deep_text) = Some (Inl RecursionError)"
proof -
  have j: "json_loads deep_lib deep_text = Inl RecursionError" by (simp add: deep_lib_def)
  show ?thesis
    by (simp add: parse_json_safely_def to_str_def strip_code_fences_deep deep_text_nonempty
        j caught_def Let_def)
qed

theorem fallback_claim_counterexample:
  "parse_json_safely example_lib (PStr raw_final_only) = Some (Inr val_final_only)
   \<and> is_dict val_final_only
   \<and> \<not> (has_key val_final_only ''final_answer'' \<and> has_key val_final_only ''supporting_sentences'')
   \<and> parse_rag_response example_lib (PStr raw_final_only) = Some (Inr (''Paris'', []))
   \<and> parse_rag_response example_lib (PStr raw_final_only) \<noteq> Some (Inr (raw_final_only, []))
   \<and> parse_rag_response deep_lib (PStr deep_text) = Some (Inl RecursionError)"
proof -
  have a: "parse_json_safely example_lib (PStr raw_final_only) = Some (Inr val_final_only)
   \<and> is_dict val_final_only
   \<and> \<not> (has_key val_final_only ''final_answer'' \<and> has_key val_final_only ''supporting_sentences'')
   \<and> parse_rag_response example_lib (PStr raw_final_only) = Some (Inr (''Paris'', []))
   \<and> parse_rag_response example_lib (PStr raw_final_only) \<noteq> Some (Inr (raw_final_only, []))"
    by code_simp
  have b: "parse_rag_response deep_lib (PStr deep_text) = Some (Inl RecursionError)"
    by (simp add: parse_rag_response_outcome [OF parse_json_safely_deep] caught_def)
  from a b show ?thesis by blast
qed


text \<open>
  \<^bold>\<open>C9.\<close> When the ladder returns for a raw string and does not parse it into a mapping (it
  yields no value or a value that is not a mapping, or raises one of the five exceptions
  that \<^verbatim>\<open>parse_rag_response\<close> catches), \<^verbatim>\<open>parse_rag_response\<close> falls back to the pair of the
  raw string and the empty list, and applied again to the string it returned it yields the
  same pair.
\<close>

theorem fallback_is_fixed_point:
  assumes "parse_json_safely lib (PStr raw) = Some outcome"
    and "(\<exists>v. outcome = Inr v \<and> \<not> is_dict v)
         \<or> (\<exists>e. outcome = Inl e
                 \<and> e \<in> set [JSONDecodeError, KeyError, TypeError, ValueError, SyntaxError])"
  shows "\<exists>fa ss. parse_rag_response lib (PStr raw) = Some (Inr (fa, ss))
              \<and> fa = raw \<and> ss = []
              \<and> parse_rag_response lib (PStr fa) = Some (Inr (fa, ss))"
  using assms(2)
  by (auto simp: parse_rag_response_outcome [OF assms(1)] caught_parse_errors simp del: set_simps)

theorem fallback_is_fixed_point_witness:
  "\<exists>fa ss. parse_rag_response example_lib (PStr ''I do not know'') = Some (Inr (fa, ss))
         \<and> fa = ''I do not know'' \<and> ss = []
         \<and> parse_rag_response example_lib (PStr fa) = Some (Inr (fa, ss))"
proof -
  have "(\<exists>v. (Inr PNone :: exn + pyval) = Inr v \<and> \<not> is_dict v)
         \<or> (\<exists>e. (Inr PNone :: exn + pyval) = Inl e
                 \<and> e \<in> set [JSONDecodeError, KeyError, TypeError, ValueError, SyntaxError])"
    by simp
  from fallback_is_fixed_point [OF parse_json_safely_garbage this] show ?thesis .
qed


text \<open>The ladder does not return for every string: on a text that starts with a single
  quote that is never closed, such as \<^verbatim>\<open>'abc\<close>, the last stage loops, and with it
  \<^verbatim>\<open>parse_rag_response\<close>.\<close>

lemma convert_loop_not_stuck:
  assumes major: "convert_loop s i b q r = Some y"
  shows "stuck_at s i \<longrightarrow> b"
proof (rule convert_loop.raw_induct [where P = "\<lambda>s i b q r y. stuck_at s i \<longrightarrow> b", OF _ major], goal_cases)
  case (1 f s i b q r y)
  show ?case
  proof (rule impI, rule ccontr)
    assume st: "stuck_at s i" and nb: "\<not> b"
    with 1(2) have "f s i b q r = Some y"
      by (simp add: stuck_at_def Let_def)
    from 1(1)[OF this] st nb show False by simp
  qed
qed

lemma convert_loop_stuck: "stuck_at s i \<Longrightarrow> convert_loop s i False q r = None"
  using convert_loop_not_stuck [of s i False q r] by (cases "convert_loop s i False q r") auto

lemma unterminated_quote_stuck: "stuck_at ([sq] @ ''abc'') 0"
  by (simp add: stuck_at_def find_string_end_def find_string_end_from.simps sq_def)

lemma parse_rag_response_diverges:
  "parse_rag_response example_lib (PStr ([sq] @ ''abc'')) = None"
proof -
  have c: "convert_python_dict_to_json ([sq] @ ''abc'') = None"
    unfolding convert_python_dict_to_json_def by (rule convert_loop_stuck) (rule unterminated_quote_stuck)
  have s: "strip_code_fences example_lib ([sq] @ ''abc'') = [sq] @ ''abc''" by code_simp
  have f: "fix_unescaped_quotes ([sq] @ ''abc'') = [sq] @ ''abc''" by code_simp
  have j: "json_loads example_lib ([sq] @ ''abc'') = Inl JSONDecodeError" by code_simp
  have l: "literal_eval example_lib ([sq] @ ''abc'') = Inl SyntaxError" by code_simp
  have "parse_json_safely example_lib (PStr ([sq] @ ''abc'')) = None"
    by (simp add: parse_json_safely_def to_str_def s j l c f caught_def ladder_literal_def
        ladder_repair_def ladder_fix_def ladder_convert_def Let_def del: append.simps)
  then show ?thesis
    by (simp add: parse_rag_response_def to_str_def del: append.simps)
qed

section \<open>Batch driver: which results are stored\<close>

text \<open>Both loops leave a filled slot as it is (the concurrent one for the indices that are
  not among its futures), and the concurrent loop stores at a slot only a result whose raw
  response and parsed answer are both non-empty.\<close>

lemma sequential_loop_keeps_filled:
  "sequential_loop w s xs st = Some (Inr st') \<Longrightarrow> i < length (results st) \<Longrightarrow>
     results st ! i \<noteq> None \<Longrightarrow> results st' ! i = results st ! i"
proof (induction xs arbitrary: st)
  case Nil
  then show ?case by simp
next
  case (Cons x xs)
  obtain j item where x: "x = (j, item)" by (cases x)
  show ?case
  proof (cases "j < length (results st) \<and> results st ! j \<noteq> None")
    case True
    with Cons show ?thesis by (simp add: x)
  next
    case False
    with Cons.prems(1) obtain result where
      p: "process_rag_question w item = Some (Inr result)" and j: "j < length (results st)"
      and rest: "sequential_loop w s xs
           \<lparr> results = (results st)[j := Some result],
             processed_count = processed_count st + 1,
             saves = count_save s 20 (processed_count st + 1) (saves st) \<rparr> = Some (Inr st')"
      by (auto simp: x split: option.splits sum.splits if_splits)
    from False j Cons.prems(3) have ne: "i \<noteq> j" by auto
    from Cons.IH [OF rest] Cons.prems(2,3) ne show ?thesis by simp
  qed
qed

lemma concurrent_loop_slots:
  "concurrent_loop w s qa order st = Some st' \<Longrightarrow>
     length (results st') = length (results st)
     \<and> (i \<notin> set order \<longrightarrow> results st' ! i = results st ! i)
     \<and> (i < length (results st) \<longrightarrow>
          results st' ! i = results st ! i
          \<or> (\<exists>q. results st' ! i = Some q \<and> r_raw_response q \<noteq> [] \<and> r_response q \<noteq> []))"
proof (induction order arbitrary: st)
  case Nil
  then show ?case by simp
next
  case (Cons j order)
  from Cons.prems obtain outcome where p: "process_rag_question w (qa ! j) = Some outcome"
    by (auto split: option.splits)
  define rs' where "rs' = (case outcome of
                    Inl e \<Rightarrow> results st
                  | Inr result \<Rightarrow>
                      if r_raw_response result = [] \<or> r_response result = [] then results st
                      else if j < length (results st) then (results st)[j := Some result]
                      else results st)"
  define st1 where "st1 = \<lparr> results = rs', processed_count = processed_count st + 1,
                  saves = count_save s 10 (processed_count st + 1) (saves st) \<rparr>"
  from Cons.prems p have rest: "concurrent_loop w s qa order st1 = Some st'"
    by (simp add: rs'_def st1_def Let_def)
  have len: "length rs' = length (results st)"
    by (auto simp: rs'_def split: sum.splits)
  have keep: "i \<noteq> j \<Longrightarrow> rs' ! i = results st ! i"
    by (auto simp: rs'_def split: sum.splits)
  have wr: "i < length (results st) \<Longrightarrow> rs' ! i = results st ! i
      \<or> (\<exists>q. rs' ! i = Some q \<and> r_raw_response q \<noteq> [] \<and> r_response q \<noteq> [])"
    by (cases "i = j") (auto simp: rs'_def split: sum.splits)
  from Cons.IH [OF rest] len keep wr show ?case
    by (auto simp: st1_def)
qed


text \<open>
  \<^bold>\<open>C3.\<close> The sequential loop stores every result, also one whose raw response and parsed
  answer are empty. With a reranker that raises, \<^verbatim>\<open>rag_workflow\<close> returns the empty response;
  on a dataset of one question with the results array \<^verbatim>\<open>[None]\<close> the sequential run fills
  slot 0 with that empty result, while the concurrent run leaves the slot \<^verbatim>\<open>None\<close>.
\<close>

theorem sequential_stores_empty_result:
  "(case test_rag_sequential failing_workflow [example_item] (Some [None]) False of
      Some (Inr (res, n)) \<Rightarrow>
        map (map_option (\<lambda>q. (r_raw_response q, r_response q))) (tr_results res) = [Some ([], [])]
    | _ \<Rightarrow> False)
   \<and> valid_completion_order [example_item] [None] [0]
   \<and> (case test_rag_concurrent failing_workflow [example_item] 2 (Some [None]) False [0] of
      Some (Inr (res, n)) \<Rightarrow> tr_results res = [None]
    | _ \<Rightarrow> False)"
  by code_simp


end
